theory Spec2Isabelle
  imports Complex_Main
begin

section \<open>The application bot: one run of the Streamlit script 01_Home.py\<close>

text \<open>
  Streamlit runs the script from top to bottom once per user interaction. One run of
  \<^verbatim>\<open>main()\<close> is modelled as a function from the state that survives between runs (the
  session state and the two cached objects of \<^verbatim>\<open>get_resources()\<close>) and what the user did
  (the widgets' return values) to the new state and the list of everything the run does
  that can be observed: the method calls on the two collaborators, with their arguments,
  the page elements it writes and the log records, in program order.

  The classes \<^verbatim>\<open>InfoLoader\<close> and \<^verbatim>\<open>VectorDB\<close> live in \<^verbatim>\<open>modules/\<close>, outside the file. They
  are a parameter of the model: a record of the methods and attributes \<^verbatim>\<open>main\<close> uses.
  A method takes the object's state and returns its outcome together with the object's
  new state, so that a method which raises may still have changed its object.
\<close>

subsection \<open>Data\<close>

text \<open>The parsed \<^verbatim>\<open>config.yml\<close>; \<^verbatim>\<open>main\<close> reads only its key \<^verbatim>\<open>local\<close>.\<close>

record config =
  local_flag :: bool

text \<open>
  What the run reads from outside: the configuration file and the two entries of
  \<^verbatim>\<open>st.secrets\<close>. Both secrets are taken to be present and to be strings.
\<close>

record env =
  config_yml :: config
  secrets_apikey :: string
  secrets_password :: string

text \<open>
  \<^verbatim>\<open>st.session_state\<close>. The keys \<^verbatim>\<open>config\<close> and \<^verbatim>\<open>usage_counter\<close> are tested with
  \<^verbatim>\<open>not in\<close>, so they may be absent (\<open>None\<close>). The key \<^verbatim>\<open>openai_api_key_host\<close> is
  assigned in every run before it is read, so its absence is never observed.
\<close>

record session_state =
  config :: "config option"
  usage_counter :: "int option"
  openai_api_key_host :: string

text \<open>An uploaded file as the uploader widget returns it.\<close>

record UploadedFile =
  name :: string
  file_bytes :: string

text \<open>
  What the user did in the run: the return values of the widgets. \<open>picked_files\<close> are
  the files the user dropped on the uploader, before the widget's filter on the file
  type; \<open>temperature\<close> is the slider's value, a float in the source and an exact
  fraction here.
\<close>

record interaction =
  password :: string
  picked_files :: "UploadedFile list"
  upload_pressed :: bool
  temperature :: rat
  user_instructions :: string
  user_information :: string
  user_input :: string
  submit_pressed :: bool

text \<open>
  The two collaborators as \<^verbatim>\<open>main\<close> uses them. \<open>'l\<close> is the state of the
  \<^verbatim>\<open>InfoLoader\<close> object, \<open>'v\<close> of the \<^verbatim>\<open>VectorDB\<close> object, \<open>'c\<close> the value of
  \<^verbatim>\<open>loader.document_chunks_full\<close>, \<open>'e\<close> an exception (a subclass of \<^verbatim>\<open>Exception\<close>).
  A method returns \<open>Some e\<close> when it raises \<open>e\<close> and \<open>None\<close> when it returns.
  \<^verbatim>\<open>get_response\<close> returns a value: \<open>Inr (Some a)\<close> is a dictionary whose entry
  \<^verbatim>\<open>"result"\<close> is \<open>a\<close>, \<open>Inr None\<close> a value that is false in a condition (\<^verbatim>\<open>None\<close>,
  an empty dictionary), \<open>Inl e\<close> an exception.
\<close>

record ('l, 'v, 'c, 'e) modules =
  get_chunks :: "UploadedFile list \<Rightarrow> 'l \<Rightarrow> 'e option \<times> 'l"
  document_chunks_full :: "'l \<Rightarrow> 'c"
  document_names :: "'l \<Rightarrow> string list"
  create_embedding_function :: "string \<Rightarrow> 'v \<Rightarrow> 'e option \<times> 'v"
  initialize_database :: "'c \<Rightarrow> string list \<Rightarrow> 'v \<Rightarrow> 'e option \<times> 'v"
  db_document_names :: "'v \<Rightarrow> string list"
  create_llm :: "string \<Rightarrow> rat \<Rightarrow> 'v \<Rightarrow> 'e option \<times> 'v"
  create_chain :: "string \<Rightarrow> string \<Rightarrow> 'v \<Rightarrow> 'e option \<times> 'v"
  get_response :: "string \<Rightarrow> 'v \<Rightarrow> ('e + string option) \<times> 'v"

text \<open>
  What survives a run: the session state and the two objects \<^verbatim>\<open>get_resources()\<close>
  returns (it is cached, so every run gets the same two objects).
\<close>

record ('l, 'v) world =
  session :: session_state
  loader :: 'l
  vector_db :: 'v

text \<open>
  What a run does, in order. The first six are the calls on the collaborators with the
  arguments passed; the others are the Streamlit and logger calls with their texts
  (icons and the \<^verbatim>\<open>expanded\<close> flag are left out). \<open>LoggerInfoList\<close> is the log record
  whose text ends in a list of names, kept as the list. \<open>Uncaught_AttributeError\<close> ends
  a run that reads a session key which is not there.
\<close>

datatype 'c event =
    GetChunks "UploadedFile list"
  | CreateEmbeddingFunction string
  | InitializeDatabase 'c "string list"
  | CreateLLM string rat
  | CreateChain string string
  | GetResponse string
  | StStatus string
  | StatusUpdate string string
  | StWrite string
  | StMarkdown string
  | StInfo string
  | StWarning string
  | StError string
  | LoggerError string
  | LoggerInfo string
  | LoggerInfoList string "string list"
  | Uncaught_AttributeError

subsection \<open>Strings and widgets\<close>

text \<open>\<^verbatim>\<open>s.startswith(p)\<close>.\<close>

definition startswith :: "string \<Rightarrow> string \<Rightarrow> bool" where
  "startswith s p = (take (length p) s = p)"

text \<open>\<^verbatim>\<open>str(n)\<close> for a natural number and for an integer.\<close>

fun str_nat :: "nat \<Rightarrow> string" where
  "str_nat n =
     (if n < 10 then [''0123456789'' ! n]
      else str_nat (n div 10) @ [''0123456789'' ! (n mod 10)])"

declare str_nat.simps [simp del]

definition str_int :: "int \<Rightarrow> string" where
  "str_int i = (if i < 0 then ''-'' @ str_nat (nat (- i)) else str_nat (nat i))"

text \<open>
  The part of a file name after its last dot (empty when it has none), and
  \<^verbatim>\<open>st.file_uploader(type=types, accept_multiple_files=True)\<close>: the widget returns the
  picked files whose extension is one of \<open>types\<close> and refuses the others itself.
\<close>

definition extension :: "string \<Rightarrow> string" where
  "extension nm =
     (if CHR ''.'' \<in> set nm then rev (takeWhile (\<lambda>c. c \<noteq> CHR ''.'') (rev nm)) else [])"

definition file_uploader :: "string list \<Rightarrow> UploadedFile list \<Rightarrow> UploadedFile list" where
  "file_uploader types picked = filter (\<lambda>f. extension (name f) \<in> set types) picked"

text \<open>The uploader of the sidebar, lines 78-83, with the four file types it allows.\<close>

definition uploaded_files :: "interaction \<Rightarrow> UploadedFile list" where
  "uploaded_files i = file_uploader [''pdf'', ''txt'', ''docx'', ''srt''] (picked_files i)"

text \<open>
  The options of the slider, \<^verbatim>\<open>[x / 10 for x in range(0, 21)]\<close>, and what the slider
  guarantees: its value is one of its options.
\<close>

definition temperature_options :: "rat list" where
  "temperature_options = map (\<lambda>x. of_nat x / 10) [0..<21]"

definition slider_ok :: "interaction \<Rightarrow> bool" where
  "slider_ok i = (temperature i \<in> set temperature_options)"

text \<open>The label of the finished upload, whose a-umlaut is two bytes in UTF-8.\<close>

definition label_complete :: string where
  "label_complete = ''Embedding vollst'' @ [CHR 0xC3, CHR 0xA4] @ ''ndig!''"

subsection \<open>The script\<close>

text \<open>\<^verbatim>\<open>initialize_session_state()\<close>, lines 38-49.\<close>

definition initialize_session_state :: "env \<Rightarrow> session_state \<Rightarrow> session_state" where
  "initialize_session_state e s =
     (let s1 = (if config s = None then s\<lparr>config := Some (config_yml e)\<rparr> else s);
          s2 = (if usage_counter s1 = None then s1\<lparr>usage_counter := Some 0\<rparr> else s1)
      in s2\<lparr>openai_api_key_host := secrets_apikey e\<rparr>)"

text \<open>
  The body of the \<^verbatim>\<open>try\<close> of the upload, lines 88-92: the exception that left it (if
  one did), the two objects afterwards, and what was done.
\<close>

definition upload_try ::
  "('l, 'v, 'c, 'e) modules \<Rightarrow> string \<Rightarrow> UploadedFile list \<Rightarrow> 'l \<Rightarrow> 'v
     \<Rightarrow> 'e option \<times> 'l \<times> 'v \<times> 'c event list" where
  "upload_try m openai_api_key files l v =
     (let ev1 = [StWrite ''Dokumente werden verarbeitet...'', GetChunks files] in
      case get_chunks m files l of
        (Some ex, l1) \<Rightarrow> (Some ex, l1, v, ev1)
      | (None, l1) \<Rightarrow>
          (let ev2 = ev1 @ [StWrite ''Embeddings werden erstellt...'',
                            CreateEmbeddingFunction openai_api_key] in
           case create_embedding_function m openai_api_key v of
             (Some ex, v2) \<Rightarrow> (Some ex, l1, v2, ev2)
           | (None, v2) \<Rightarrow>
               (let ev3 = ev2 @ [InitializeDatabase (document_chunks_full m l1)
                                   (document_names m l1)] in
                case initialize_database m (document_chunks_full m l1)
                       (document_names m l1) v2 of
                  (r3, v3) \<Rightarrow> (r3, l1, v3, ev3))))"

text \<open>
  The upload, lines 85-101. The third component says whether an \<^verbatim>\<open>AttributeError\<close>
  left the block: the \<^verbatim>\<open>else\<close> clause reads \<^verbatim>\<open>st.session_state.usage_counter\<close>, and an
  exception of the \<^verbatim>\<open>else\<close> clause is not caught by the \<^verbatim>\<open>except\<close> clause.
\<close>

definition upload_block ::
  "('l, 'v, 'c, 'e) modules \<Rightarrow> env \<Rightarrow> interaction \<Rightarrow> string \<Rightarrow> UploadedFile list
     \<Rightarrow> ('l, 'v) world \<Rightarrow> ('l, 'v) world \<times> 'c event list \<times> bool" where
  "upload_block m e i openai_api_key files w =
     (if upload_pressed i \<and> files \<noteq> [] \<and> password i = secrets_password e then
        (let status = StStatus ''Lade hoch (das kann einen Moment dauern)...)'' in
         case upload_try m openai_api_key files (loader w) (vector_db w) of
           (Some ex, l, v, evs) \<Rightarrow>
             (w\<lparr>loader := l, vector_db := v\<rparr>,
              status # evs @
                [LoggerError ''Exception during Splitting / embedding'',
                 StatusUpdate ''Error occured.'' ''error''],
              False)
         | (None, l, v, evs) \<Rightarrow>
             (let w1 = w\<lparr>loader := l, vector_db := v\<rparr>;
                  finish = [LoggerInfoList ''Erfolgreich hochgeladen: '' (document_names m l),
                          StatusUpdate label_complete ''complete'']
              in if openai_api_key = openai_api_key_host (session w) then
                   (case usage_counter (session w) of
                      None \<Rightarrow> (w1, status # evs, True)
                    | Some c \<Rightarrow>
                        (let c' = c + int (length (document_names m l)) in
                         (w1\<lparr>session := (session w)\<lparr>usage_counter := Some c'\<rparr>\<rparr>,
                          status # evs @
                            [LoggerInfo (''Current usage counter: '' @ str_int c')] @ finish,
                          False)))
                 else (w1, status # evs @ finish, False)))
      else (w, [], False))"

text \<open>The info bar's text, lines 117-122: the loop over \<^verbatim>\<open>enumerate(...)\<close> and its start.\<close>

fun doc_name_loop :: "string \<Rightarrow> nat \<Rightarrow> string list \<Rightarrow> string" where
  "doc_name_loop doc_name_display doc_count [] = doc_name_display"
| "doc_name_loop doc_name_display doc_count (doc_name # rest) =
     doc_name_loop
       (doc_name_display @ str_nat (doc_count + 1) @ ''. '' @ doc_name @ [CHR 0x0A, CHR 0x0A])
       (doc_count + 1) rest"

definition doc_name_display :: "string list \<Rightarrow> string" where
  "doc_name_display names =
     (if names \<noteq> [] then doc_name_loop [] 0 names
      else ''Noch keine Dokumente hochgeladen!'')"

definition info_bar :: "string list \<Rightarrow> string" where
  "info_bar names =
     ''Hochgeladene Dokumente: '' @ [CHR 0x0A, CHR 0x0A] @ '' '' @ doc_name_display names"

text \<open>
  The body of the \<^verbatim>\<open>try\<close> of the query, lines 155-164: the exception that left it (if
  one did), the variable \<^verbatim>\<open>result\<close>, the \<^verbatim>\<open>VectorDB\<close> object afterwards, and the calls.
\<close>

definition query_try ::
  "('l, 'v, 'c, 'e) modules \<Rightarrow> string \<Rightarrow> rat \<Rightarrow> string \<Rightarrow> string \<Rightarrow> string \<Rightarrow> 'v
     \<Rightarrow> 'e option \<times> string option \<times> 'v \<times> 'c event list" where
  "query_try m openai_api_key temp prompt_mode source question v =
     (let result = None;
          ev1 = [CreateLLM openai_api_key temp] in
      case create_llm m openai_api_key temp v of
        (Some ex, v1) \<Rightarrow> (Some ex, result, v1, ev1)
      | (None, v1) \<Rightarrow>
          (let ev2 = ev1 @ [CreateChain prompt_mode source] in
           case create_chain m prompt_mode source v1 of
             (Some ex, v2) \<Rightarrow> (Some ex, result, v2, ev2)
           | (None, v2) \<Rightarrow>
               (let ev3 = ev2 @ [GetResponse question] in
                case get_response m question v2 of
                  (Inl ex, v3) \<Rightarrow> (Some ex, result, v3, ev3)
                | (Inr r, v3) \<Rightarrow> (None, r, v3, ev3))))"

text \<open>The submission of the form, lines 152-172.\<close>

definition submit_block ::
  "('l, 'v, 'c, 'e) modules \<Rightarrow> interaction \<Rightarrow> string \<Rightarrow> string \<Rightarrow> string \<Rightarrow> 'v
     \<Rightarrow> 'v \<times> 'c event list" where
  "submit_block m i openai_api_key prompt_mode source v =
     (if submit_pressed i \<and> startswith openai_api_key ''sk-'' then
        (case query_try m openai_api_key (temperature i) prompt_mode source
                (user_instructions i @ '' '' @ user_information i @ '' '' @ user_input i) v of
           (raised, result, v', calls) \<Rightarrow>
             (v',
              calls @
              (case raised of
                 Some ex \<Rightarrow> [LoggerError ''Exception during Querying'',
                             StError ''Error occured, unable to process response!'']
               | None \<Rightarrow> []) @
              (case result of
                 Some answer \<Rightarrow> [StInfo ''Anschreiben:'', StInfo answer]
               | None \<Rightarrow> [])))
      else (v, []))"

text \<open>The main page, lines 113-172.\<close>

definition main_page ::
  "('l, 'v, 'c, 'e) modules \<Rightarrow> interaction \<Rightarrow> string \<Rightarrow> 'v \<Rightarrow> 'v \<times> 'c event list" where
  "main_page m i openai_api_key v =
     (let head = [StMarkdown ''## :rocket: Willkommen zu deinem Bewerbungs-Assistenten'',
                  StInfo (info_bar (db_document_names m v))] @
                 (if \<not> startswith openai_api_key ''sk-'' \<or> openai_api_key = ''NA''
                  then [StWrite ''Enter your API key on the sidebar to begin''] else []);
          source = ''Uploaded documents'';
          prompt_mode = ''Unrestricted'';
          warn = (if \<not> startswith openai_api_key ''sk-'' then
                    (if openai_api_key = ''NA'' then
                       [StWarning
                          ''Host key currently not available, please use your own OpenAI API key!'']
                     else [StWarning ''Please enter your OpenAI API key!''])
                  else [])
      in case submit_block m i openai_api_key prompt_mode source v of
           (v', evs) \<Rightarrow> (v', head @ warn @ evs))"

text \<open>
  \<^verbatim>\<open>main()\<close>, lines 58-172. The page configuration and the set-up of the logger are
  left out; the logger's records are events whatever their destination.
\<close>

definition main ::
  "('l, 'v, 'c, 'e) modules \<Rightarrow> env \<Rightarrow> interaction \<Rightarrow> ('l, 'v) world
     \<Rightarrow> ('l, 'v) world \<times> 'c event list" where
  "main m e i w =
     (let w0 = w\<lparr>session := initialize_session_state e (session w)\<rparr>;
          openai_api_key = openai_api_key_host (session w0);
          files = uploaded_files i
      in case upload_block m e i openai_api_key files w0 of
           (w1, ev1, True) \<Rightarrow> (w1, ev1 @ [Uncaught_AttributeError])
         | (w1, ev1, False) \<Rightarrow>
             (case main_page m i openai_api_key (vector_db w1) of
                (v2, ev2) \<Rightarrow> (w1\<lparr>vector_db := v2\<rparr>, ev1 @ ev2)))"

text \<open>A sequence of runs, one per interaction, each on the state the last one left.\<close>

fun runs ::
  "('l, 'v, 'c, 'e) modules \<Rightarrow> env \<Rightarrow> interaction list \<Rightarrow> ('l, 'v) world \<Rightarrow> ('l, 'v) world" where
  "runs m e [] w = w"
| "runs m e (i # rest) w = runs m e rest (fst (main m e i w))"

subsection \<open>Notions the properties are stated with\<close>

text \<open>
  The condition of the upload (line 85) and of the query (line 152), as \<^verbatim>\<open>main\<close> evaluates
  them: its \<^verbatim>\<open>openai_api_key\<close> is the secret \<^verbatim>\<open>apikey\<close>.
\<close>

definition upload_gate :: "env \<Rightarrow> interaction \<Rightarrow> bool" where
  "upload_gate e i =
     (upload_pressed i \<and> uploaded_files i \<noteq> [] \<and> password i = secrets_password e)"

definition query_gate :: "env \<Rightarrow> interaction \<Rightarrow> bool" where
  "query_gate e i = (submit_pressed i \<and> startswith (secrets_apikey e) ''sk-'')"

text \<open>
  The upload of a run, as \<^verbatim>\<open>main\<close> performs it on the state \<open>w\<close>, and whether it was
  successful: the upload ran and no exception left its \<^verbatim>\<open>try\<close>.
\<close>

definition upload_of ::
  "('l, 'v, 'c, 'e) modules \<Rightarrow> env \<Rightarrow> interaction \<Rightarrow> ('l, 'v) world
     \<Rightarrow> 'e option \<times> 'l \<times> 'v \<times> 'c event list" where
  "upload_of m e i w =
     upload_try m (secrets_apikey e) (uploaded_files i) (loader w) (vector_db w)"

definition upload_succeeded ::
  "('l, 'v, 'c, 'e) modules \<Rightarrow> env \<Rightarrow> interaction \<Rightarrow> ('l, 'v) world \<Rightarrow> bool" where
  "upload_succeeded m e i w = (upload_gate e i \<and> fst (upload_of m e i w) = None)"

definition upload_failed ::
  "('l, 'v, 'c, 'e) modules \<Rightarrow> env \<Rightarrow> interaction \<Rightarrow> ('l, 'v) world \<Rightarrow> bool" where
  "upload_failed m e i w = (upload_gate e i \<and> fst (upload_of m e i w) \<noteq> None)"

text \<open>The \<^verbatim>\<open>VectorDB\<close> object when the main page starts: after the upload, if one ran.\<close>

definition db_after_sidebar ::
  "('l, 'v, 'c, 'e) modules \<Rightarrow> env \<Rightarrow> interaction \<Rightarrow> ('l, 'v) world \<Rightarrow> 'v" where
  "db_after_sidebar m e i w =
     (if upload_gate e i then fst (snd (snd (upload_of m e i w))) else vector_db w)"

text \<open>The query of a run, as \<^verbatim>\<open>main\<close> performs it.\<close>

definition query_of ::
  "('l, 'v, 'c, 'e) modules \<Rightarrow> env \<Rightarrow> interaction \<Rightarrow> ('l, 'v) world
     \<Rightarrow> 'e option \<times> string option \<times> 'v \<times> 'c event list" where
  "query_of m e i w =
     query_try m (secrets_apikey e) (temperature i) ''Unrestricted'' ''Uploaded documents''
       (user_instructions i @ '' '' @ user_information i @ '' '' @ user_input i)
       (db_after_sidebar m e i w)"

text \<open>The usage counter as the next run reads it: a session without the key starts at 0.\<close>

definition usage_value :: "('l, 'v) world \<Rightarrow> int" where
  "usage_value w = (case usage_counter (session w) of None \<Rightarrow> 0 | Some c \<Rightarrow> c)"

text \<open>The calls that ingest documents.\<close>

fun is_ingest_call :: "'c event \<Rightarrow> bool" where
  "is_ingest_call (GetChunks fs) = True"
| "is_ingest_call (CreateEmbeddingFunction k) = True"
| "is_ingest_call (InitializeDatabase c ns) = True"
| "is_ingest_call ev = False"

text \<open>The calls that answer a question.\<close>

fun is_query_call :: "'c event \<Rightarrow> bool" where
  "is_query_call (CreateLLM k t) = True"
| "is_query_call (CreateChain p s) = True"
| "is_query_call (GetResponse q) = True"
| "is_query_call ev = False"

subsection \<open>The collaborators of the specification\<close>

text \<open>
  Modelled from the spec: the class \<^verbatim>\<open>InfoLoader\<close> is not in the sources. This is what
  the Chunker of the specification's section 4.1 returns for a batch: the segments, the
  names of the documents they come from, and aside the names of the files that failed.
\<close>

record 's chunks =
  chunk_segments :: "'s list"
  chunk_document_names :: "string list"
  chunk_failed :: "string list"

text \<open>
  Modelled from the spec: \<^verbatim>\<open>InfoLoader.get_chunks\<close> is not in the sources. Section 4.1 of
  the specification gives the Chunker's \<^verbatim>\<open>chunk(files) -> (segments, document_names)\<close>: a
  function of the files of the batch alone, with the document names an ordered sequence
  of unique ids (the file names, each at its first occurrence). A file whose extraction
  fails does not abort the batch: it is left out and listed aside. \<open>extractor\<close> is
  the extraction of one file by its format, \<open>None\<close> when it fails. The loader then holds
  the result for the batch, whatever it held before.
\<close>

definition spec_chunk :: "(UploadedFile \<Rightarrow> 's list option) \<Rightarrow> UploadedFile list \<Rightarrow> 's chunks" where
  "spec_chunk extractor files =
     \<lparr>chunk_segments =
        concat (map (\<lambda>f. case extractor f of None \<Rightarrow> [] | Some segments \<Rightarrow> segments) files),
      chunk_document_names =
        rev (remdups (rev (map name (filter (\<lambda>f. extractor f \<noteq> None) files)))),
      chunk_failed = map name (filter (\<lambda>f. extractor f = None) files)\<rparr>"

definition spec_get_chunks ::
  "(UploadedFile \<Rightarrow> 's list option) \<Rightarrow> UploadedFile list \<Rightarrow> 's chunks
     \<Rightarrow> 'e option \<times> 's chunks" where
  "spec_get_chunks extractor files l = (None, spec_chunk extractor files)"

text \<open>
  Modelled from the spec: the class \<^verbatim>\<open>VectorDB\<close> is not in the sources. This is the
  state of the Embedding Index of the specification's section 4.2, as far as the
  properties need it: the indexed segments and the names of the indexed documents, of
  which \<^verbatim>\<open>document_names\<close> is the read-only projection. A record with more fields (the
  model, the chain) is an index too.
\<close>

record 'c index =
  index_segments :: 'c
  index_document_names :: "string list"

text \<open>
  Modelled from the spec: \<^verbatim>\<open>VectorDB.initialize_database\<close> is not in the sources. Section
  4.2 of the specification gives its \<^verbatim>\<open>initialize(segments, document_names)\<close>: it clears any
  prior index and rebuilds it in full from the given segments, a replace and not a
  merge; when the build fails it keeps the last known-good index and raises. \<open>build\<close>
  is the embedding of the segments by the remote provider, which may fail.
\<close>

definition spec_initialize ::
  "('c \<Rightarrow> 'e option) \<Rightarrow> 'c \<Rightarrow> string list \<Rightarrow> ('c, 'z) index_scheme
     \<Rightarrow> 'e option \<times> ('c, 'z) index_scheme" where
  "spec_initialize build segments names ix =
     (case build segments of
        Some ex \<Rightarrow> (Some ex, ix)
      | None \<Rightarrow> (None, ix\<lparr>index_segments := segments, index_document_names := names\<rparr>))"

text \<open>
  Modelled from the spec: the query methods of \<^verbatim>\<open>VectorDB\<close> (\<^verbatim>\<open>create_llm\<close>,
  \<^verbatim>\<open>create_chain\<close>, \<^verbatim>\<open>get_response\<close>) are not in the sources. By sections 3 and 5 of the
  specification the query session is transient and answering has read-only access to
  the index: whether they return or raise, the three methods leave the document names
  of the database as they are.
\<close>

definition query_reads_index_only :: "('l, 'v, 'c, 'e) modules \<Rightarrow> bool" where
  "query_reads_index_only m =
     ((\<forall>key temp v. db_document_names m (snd (create_llm m key temp v)) = db_document_names m v) \<and>
      (\<forall>prompt_mode source v.
          db_document_names m (snd (create_chain m prompt_mode source v)) = db_document_names m v) \<and>
      (\<forall>q v. db_document_names m (snd (get_response m q v)) = db_document_names m v))"

text \<open>
  Modelled from the spec: the error taxonomy of the specification's section 7. The source
  has no exception classes of its own.
\<close>

datatype error =
    UnsupportedFormat
  | ExtractionError
  | AuthenticationError
  | RateLimitError
  | GenerationError
  | IndexMismatchError
  | InvalidParameter
  | NotReady

text \<open>
  Modelled from the spec: \<^verbatim>\<open>VectorDB.create_llm\<close> is not in the sources. By section 4.4 of
  the specification the Generation Client takes a temperature in [0.0, 2.0] inclusive,
  and an out-of-range value fails with \<^verbatim>\<open>InvalidParameter\<close>. \<open>configure\<close> is what the
  client keeps of an accepted key and temperature.
\<close>

definition spec_create_llm ::
  "(string \<Rightarrow> rat \<Rightarrow> 'v \<Rightarrow> 'v) \<Rightarrow> string \<Rightarrow> rat \<Rightarrow> 'v \<Rightarrow> error option \<times> 'v" where
  "spec_create_llm configure key temp v =
     (if 0 \<le> temp \<and> temp \<le> 2 then (None, configure key temp v)
      else (Some InvalidParameter, v))"

subsection \<open>A concrete instance\<close>

text \<open>
  Stand-ins for the two collaborators, to run the script on concrete inputs. The loader
  keeps the texts and the names of the last batch and raises on a file without content;
  the database keeps what it was given last and answers every question.
\<close>

definition demo_modules ::
  "(string list \<times> string list, string list \<times> string list, string list, string) modules" where
  "demo_modules =
     \<lparr>get_chunks = (\<lambda>files l.
        if list_ex (\<lambda>f. file_bytes f = []) files then (Some ''ExtractionError'', l)
        else (None, (map file_bytes files, map name files))),
      document_chunks_full = fst,
      document_names = snd,
      create_embedding_function = (\<lambda>key v. (None, v)),
      initialize_database = (\<lambda>chunks names v. (None, (chunks, names))),
      db_document_names = snd,
      create_llm = (\<lambda>key temp v. (None, v)),
      create_chain = (\<lambda>prompt_mode source v. (None, v)),
      get_response = (\<lambda>q v. (Inr (Some ''Sehr geehrter Herr Mustermensch''), v))\<rparr>"

text \<open>The same with a language model that is out of reach.\<close>

definition failing_modules ::
  "(string list \<times> string list, string list \<times> string list, string list, string) modules" where
  "failing_modules = demo_modules\<lparr>get_response := (\<lambda>q v. (Inl ''RateLimitError'', v))\<rparr>"

text \<open>
  The collaborators of the specification: its chunker with an extraction that fails on a
  file without content, its index with a provider that always embeds, and its
  generation client.
\<close>

definition demo_extractor :: "UploadedFile \<Rightarrow> string list option" where
  "demo_extractor f = (if file_bytes f = [] then None else Some [file_bytes f])"

definition spec_modules :: "(string chunks, string list index, string list, error) modules" where
  "spec_modules =
     \<lparr>get_chunks = spec_get_chunks demo_extractor,
      document_chunks_full = chunk_segments,
      document_names = chunk_document_names,
      create_embedding_function = (\<lambda>key v. (None, v)),
      initialize_database = spec_initialize (\<lambda>segments. None),
      db_document_names = index_document_names,
      create_llm = spec_create_llm (\<lambda>key temp v. v),
      create_chain = (\<lambda>prompt_mode source v. (None, v)),
      get_response = (\<lambda>q v. (Inr (Some ''Sehr geehrter Herr Mustermensch''), v))\<rparr>"

definition demo_env :: env where
  "demo_env =
     \<lparr>config_yml = \<lparr>local_flag = True\<rparr>, secrets_apikey = ''sk-host'',
      secrets_password = ''geheim''\<rparr>"

definition fresh_session :: session_state where
  "fresh_session = \<lparr>config = None, usage_counter = None, openai_api_key_host = []\<rparr>"

definition fresh_world :: "(string list \<times> string list, string list \<times> string list) world" where
  "fresh_world = \<lparr>session = fresh_session, loader = ([], []), vector_db = ([], [])\<rparr>"

definition spec_world :: "(string chunks, string list index) world" where
  "spec_world =
     \<lparr>session = fresh_session,
      loader = \<lparr>chunk_segments = [], chunk_document_names = [], chunk_failed = []\<rparr>,
      vector_db = \<lparr>index_segments = [], index_document_names = []\<rparr>\<rparr>"

definition resume :: UploadedFile where
  "resume = \<lparr>name = ''resume.pdf'', file_bytes = ''Lebenslauf''\<rparr>"

definition posting :: UploadedFile where
  "posting = \<lparr>name = ''posting.txt'', file_bytes = ''Stelle''\<rparr>"

definition broken :: UploadedFile where
  "broken = \<lparr>name = ''broken.pdf'', file_bytes = []\<rparr>"

definition md_notes :: UploadedFile where
  "md_notes = \<lparr>name = ''notes.md'', file_bytes = ''Notizen''\<rparr>"

definition idle :: interaction where
  "idle =
     \<lparr>password = [], picked_files = [], upload_pressed = False, temperature = 1,
      user_instructions = ''Du bist ein Bewerbungs-Assistent.'',
      user_information = ''Ich bin Max.'',
      user_input = ''Erstelle mir ein Anschreiben.'',
      submit_pressed = False\<rparr>"

definition upload :: "UploadedFile list \<Rightarrow> interaction" where
  "upload fs = idle\<lparr>password := ''geheim'', picked_files := fs, upload_pressed := True\<rparr>"

definition ask :: interaction where
  "ask = idle\<lparr>submit_pressed := True\<rparr>"

section \<open>How a run decomposes\<close>

text \<open>
  A run is the upload of the sidebar followed by the main page; the lemmas below give
  the state and the events of a run from those of its parts.
\<close>

text \<open>
  A run is the upload of the sidebar followed by the main page; the lemmas below give
  the state and the events of a run from those of its parts.
\<close>

lemma init_host [simp]: "openai_api_key_host (initialize_session_state e s) = secrets_apikey e"
  by (simp add: initialize_session_state_def Let_def)

lemma init_counter [simp]:
  "usage_counter (initialize_session_state e s) = Some (case usage_counter s of None \<Rightarrow> 0 | Some c \<Rightarrow> c)"
  by (simp add: initialize_session_state_def Let_def split: option.splits)

lemma upload_block_closed:
  "\<not> upload_gate e i \<Longrightarrow> upload_block m e i k (uploaded_files i) w = (w, [], False)"
  unfolding upload_block_def upload_gate_def by (rule if_not_P)

lemma main_closed:
  assumes "\<not> upload_gate e i"
  shows "main m e i w =
    (w\<lparr>session := initialize_session_state e (session w),
       vector_db := fst (main_page m i (secrets_apikey e) (vector_db w))\<rparr>,
     snd (main_page m i (secrets_apikey e) (vector_db w)))"
  using assms
  by (simp add: main_def upload_block_closed Let_def split: prod.splits)

lemma main_failed:
  assumes "upload_gate e i" and "upload_of m e i w = (Some ex, l, v, evs)"
  shows "main m e i w =
    (w\<lparr>session := initialize_session_state e (session w), loader := l,
       vector_db := fst (main_page m i (secrets_apikey e) v)\<rparr>,
     StStatus ''Lade hoch (das kann einen Moment dauern)...)'' # evs @
       [LoggerError ''Exception during Splitting / embedding'',
        StatusUpdate ''Error occured.'' ''error''] @
       snd (main_page m i (secrets_apikey e) v))"
  using assms
  by (simp add: main_def upload_block_def upload_gate_def upload_of_def Let_def split: prod.splits)

lemma main_ok:
  assumes "upload_gate e i" and "upload_of m e i w = (None, l, v, evs)"
  shows "main m e i w =
    (w\<lparr>session := (initialize_session_state e (session w))
          \<lparr>usage_counter := Some (usage_value w + int (length (document_names m l)))\<rparr>,
       loader := l,
       vector_db := fst (main_page m i (secrets_apikey e) v)\<rparr>,
     StStatus ''Lade hoch (das kann einen Moment dauern)...)'' # evs @
       [LoggerInfo (''Current usage counter: '' @
          str_int (usage_value w + int (length (document_names m l)))),
        LoggerInfoList ''Erfolgreich hochgeladen: '' (document_names m l),
        StatusUpdate label_complete ''complete''] @
       snd (main_page m i (secrets_apikey e) v))"
  using assms
  by (simp add: main_def upload_block_def upload_gate_def upload_of_def usage_value_def Let_def
        split: prod.splits)

lemma main_page_db:
  "fst (main_page m i k v) = fst (submit_block m i k ''Unrestricted'' ''Uploaded documents'' v)"
  by (simp add: main_page_def Let_def split: prod.splits)

lemma main_page_events:
  "snd (main_page m i k v) =
     [StMarkdown ''## :rocket: Willkommen zu deinem Bewerbungs-Assistenten'',
      StInfo (info_bar (db_document_names m v))] @
     (if \<not> startswith k ''sk-'' \<or> k = ''NA''
      then [StWrite ''Enter your API key on the sidebar to begin''] else []) @
     (if \<not> startswith k ''sk-'' then
        (if k = ''NA'' then
           [StWarning ''Host key currently not available, please use your own OpenAI API key!'']
         else [StWarning ''Please enter your OpenAI API key!''])
      else []) @
     snd (submit_block m i k ''Unrestricted'' ''Uploaded documents'' v)"
  by (simp add: main_page_def Let_def split: prod.splits)

lemma submit_block_closed:
  "\<not> (submit_pressed i \<and> startswith k ''sk-'') \<Longrightarrow> submit_block m i k pm src v = (v, [])"
  unfolding submit_block_def by (rule if_not_P)

lemma submit_block_open:
  assumes "submit_pressed i" and "startswith k ''sk-''"
    and "query_try m k (temperature i) pm src
           (user_instructions i @ '' '' @ user_information i @ '' '' @ user_input i) v =
         (raised, result, v', calls)"
  shows "submit_block m i k pm src v =
    (v', calls @
       (case raised of
          Some ex \<Rightarrow> [LoggerError ''Exception during Querying'',
                      StError ''Error occured, unable to process response!'']
        | None \<Rightarrow> []) @
       (case result of
          Some answer \<Rightarrow> [StInfo ''Anschreiben:'', StInfo answer]
        | None \<Rightarrow> []))"
  using assms by (simp add: submit_block_def)

lemma query_try_evs:
  "ev \<in> set (snd (snd (snd (query_try m k t pm src q v)))) \<Longrightarrow>
     ev = CreateLLM k t \<or> ev = CreateChain pm src \<or> ev = GetResponse q"
  unfolding query_try_def Let_def
  by (cases "create_llm m k t v"; cases "fst (create_llm m k t v)";
      cases "create_chain m pm src (snd (create_llm m k t v))";
      cases "fst (create_chain m pm src (snd (create_llm m k t v)))";
      cases "get_response m q (snd (create_chain m pm src (snd (create_llm m k t v))))";
      cases "fst (get_response m q (snd (create_chain m pm src (snd (create_llm m k t v)))))")
     auto

lemma query_try_llm:
  "CreateLLM k t \<in> set (snd (snd (snd (query_try m k t pm src q v))))"
  unfolding query_try_def Let_def
  by (cases "create_llm m k t v"; cases "fst (create_llm m k t v)";
      cases "create_chain m pm src (snd (create_llm m k t v))";
      cases "fst (create_chain m pm src (snd (create_llm m k t v)))";
      cases "get_response m q (snd (create_chain m pm src (snd (create_llm m k t v))))";
      cases "fst (get_response m q (snd (create_chain m pm src (snd (create_llm m k t v)))))")
     auto


lemma upload_try_loader:
  "fst (snd (upload_try m k fs l v)) = snd (get_chunks m fs l)"
  unfolding upload_try_def Let_def
  by (cases "get_chunks m fs l"; cases "fst (get_chunks m fs l)";
      cases "create_embedding_function m k v"; cases "fst (create_embedding_function m k v)";
      cases "initialize_database m (document_chunks_full m (snd (get_chunks m fs l)))
               (document_names m (snd (get_chunks m fs l)))
               (snd (create_embedding_function m k v))")
     auto

lemma upload_try_evs:
  "ev \<in> set (snd (snd (snd (upload_try m k fs l v)))) \<Longrightarrow>
     ev = StWrite ''Dokumente werden verarbeitet...'' \<or> ev = GetChunks fs \<or>
     ev = StWrite ''Embeddings werden erstellt...'' \<or> ev = CreateEmbeddingFunction k \<or>
     ev = InitializeDatabase (document_chunks_full m (snd (get_chunks m fs l)))
            (document_names m (snd (get_chunks m fs l)))"
  unfolding upload_try_def Let_def
  by (cases "get_chunks m fs l"; cases "fst (get_chunks m fs l)";
      cases "create_embedding_function m k v"; cases "fst (create_embedding_function m k v)";
      cases "initialize_database m (document_chunks_full m (snd (get_chunks m fs l)))
               (document_names m (snd (get_chunks m fs l)))
               (snd (create_embedding_function m k v))")
     auto

lemma upload_try_chunks_called:
  "GetChunks fs \<in> set (snd (snd (snd (upload_try m k fs l v))))"
  unfolding upload_try_def Let_def
  by (cases "get_chunks m fs l"; cases "fst (get_chunks m fs l)";
      cases "create_embedding_function m k v"; cases "fst (create_embedding_function m k v)";
      cases "initialize_database m (document_chunks_full m (snd (get_chunks m fs l)))
               (document_names m (snd (get_chunks m fs l)))
               (snd (create_embedding_function m k v))")
     auto

lemma upload_try_chunks_raised:
  "fst (get_chunks m fs l) = Some ex \<Longrightarrow>
     upload_try m k fs l v =
       (Some ex, snd (get_chunks m fs l), v,
        [StWrite ''Dokumente werden verarbeitet...'', GetChunks fs])"
  unfolding upload_try_def Let_def
  by (cases "get_chunks m fs l") auto

text \<open>
  When no exception left the \<^verbatim>\<open>try\<close> of the upload, \<^verbatim>\<open>initialize_database\<close> was called
  with the chunks and the names of the loader after \<^verbatim>\<open>get_chunks\<close>, it returned, and the
  database is the one it left.
\<close>

lemma upload_try_succeeded:
  assumes "fst (upload_try m k fs l v) = None"
  shows "fst (initialize_database m (document_chunks_full m (snd (get_chunks m fs l)))
                  (document_names m (snd (get_chunks m fs l)))
                  (snd (create_embedding_function m k v))) = None \<and>
         fst (snd (snd (upload_try m k fs l v))) =
           snd (initialize_database m (document_chunks_full m (snd (get_chunks m fs l)))
                  (document_names m (snd (get_chunks m fs l)))
                  (snd (create_embedding_function m k v))) \<and>
         InitializeDatabase (document_chunks_full m (snd (get_chunks m fs l)))
             (document_names m (snd (get_chunks m fs l)))
           \<in> set (snd (snd (snd (upload_try m k fs l v))))"
  using assms unfolding upload_try_def Let_def
  by (cases "get_chunks m fs l"; cases "fst (get_chunks m fs l)";
      cases "create_embedding_function m k v"; cases "fst (create_embedding_function m k v)";
      cases "initialize_database m (document_chunks_full m (snd (get_chunks m fs l)))
               (document_names m (snd (get_chunks m fs l)))
               (snd (create_embedding_function m k v))")
     auto

lemma main_event_iff:
  "ev \<in> set (snd (main m e i w)) \<longleftrightarrow>
     ev \<in> set (snd (main_page m i (secrets_apikey e) (db_after_sidebar m e i w))) \<or>
     (upload_gate e i \<and>
        (ev = StStatus ''Lade hoch (das kann einen Moment dauern)...)'' \<or>
         ev \<in> set (snd (snd (snd (upload_of m e i w)))))) \<or>
     (upload_failed m e i w \<and>
        (ev = LoggerError ''Exception during Splitting / embedding'' \<or>
         ev = StatusUpdate ''Error occured.'' ''error'')) \<or>
     (upload_succeeded m e i w \<and>
        (ev = LoggerInfo (''Current usage counter: '' @
                str_int (usage_value w +
                  int (length (document_names m (fst (snd (upload_of m e i w))))))) \<or>
         ev = LoggerInfoList ''Erfolgreich hochgeladen: ''
                (document_names m (fst (snd (upload_of m e i w)))) \<or>
         ev = StatusUpdate label_complete ''complete''))"
proof (cases "upload_gate e i")
  case False
  then show ?thesis
    by (simp add: main_closed db_after_sidebar_def upload_failed_def upload_succeeded_def)
next
  case True
  obtain r l v evs where u: "upload_of m e i w = (r, l, v, evs)"
    by (cases "upload_of m e i w") auto
  show ?thesis
  proof (cases r)
    case None
    with True u show ?thesis
      by (simp add: main_ok db_after_sidebar_def upload_failed_def upload_succeeded_def) blast
  next
    case (Some ex)
    with True u show ?thesis
      by (simp add: main_failed db_after_sidebar_def upload_failed_def upload_succeeded_def) blast
  qed
qed

lemma main_loader:
  "loader (fst (main m e i w)) =
     (if upload_gate e i then fst (snd (upload_of m e i w)) else loader w)"
proof (cases "upload_gate e i")
  case False
  then show ?thesis by (simp add: main_closed)
next
  case True
  obtain r l v evs where u: "upload_of m e i w = (r, l, v, evs)"
    by (cases "upload_of m e i w") auto
  with True show ?thesis
    by (cases r) (simp_all add: main_ok main_failed)
qed

lemma main_db:
  "vector_db (fst (main m e i w)) =
     fst (main_page m i (secrets_apikey e) (db_after_sidebar m e i w))"
proof (cases "upload_gate e i")
  case False
  then show ?thesis by (simp add: main_closed db_after_sidebar_def)
next
  case True
  obtain r l v evs where u: "upload_of m e i w = (r, l, v, evs)"
    by (cases "upload_of m e i w") auto
  with True show ?thesis
    by (cases r) (simp_all add: main_ok main_failed db_after_sidebar_def)
qed

lemma main_usage_counter:
  "usage_counter (session (fst (main m e i w))) =
     Some (usage_value w +
       (if upload_succeeded m e i w
        then int (length (document_names m (fst (snd (upload_of m e i w))))) else 0))"
proof (cases "upload_gate e i")
  case False
  then show ?thesis by (simp add: main_closed upload_succeeded_def usage_value_def)
next
  case True
  obtain r l v evs where u: "upload_of m e i w = (r, l, v, evs)"
    by (cases "upload_of m e i w") auto
  with True show ?thesis
    by (cases r) (simp_all add: main_ok main_failed upload_succeeded_def usage_value_def)
qed

lemma submit_event_iff:
  "ev \<in> set (snd (submit_block m i k pm src v)) \<longleftrightarrow>
     submit_pressed i \<and> startswith k ''sk-'' \<and>
     (let q = query_try m k (temperature i) pm src
                (user_instructions i @ '' '' @ user_information i @ '' '' @ user_input i) v
      in ev \<in> set (snd (snd (snd q))) \<or>
         (fst q \<noteq> None \<and>
            (ev = LoggerError ''Exception during Querying'' \<or>
             ev = StError ''Error occured, unable to process response!'')) \<or>
         (\<exists>a. fst (snd q) = Some a \<and> (ev = StInfo ''Anschreiben:'' \<or> ev = StInfo a)))"
proof (cases "submit_pressed i \<and> startswith k ''sk-''")
  case False
  then show ?thesis by (auto simp: submit_block_closed)
next
  case True
  obtain raised result v' calls where
    q: "query_try m k (temperature i) pm src
          (user_instructions i @ '' '' @ user_information i @ '' '' @ user_input i) v =
        (raised, result, v', calls)"
    by (cases "query_try m k (temperature i) pm src
          (user_instructions i @ '' '' @ user_information i @ '' '' @ user_input i) v") auto
  from True have s: "submit_pressed i" and k: "startswith k ''sk-''" by auto
  show ?thesis
    unfolding submit_block_open [OF s k q] Let_def q
    using s k by (cases raised; cases result) auto
qed

lemma page_call_iff:
  assumes "\<And>s. ev \<noteq> StMarkdown s" "\<And>s. ev \<noteq> StInfo s" "\<And>s. ev \<noteq> StWrite s" "\<And>s. ev \<noteq> StWarning s"
  shows "ev \<in> set (snd (main_page m i k v)) \<longleftrightarrow>
         ev \<in> set (snd (submit_block m i k ''Unrestricted'' ''Uploaded documents'' v))"
  using assms by (auto simp: main_page_events)

lemma main_query_call_iff:
  assumes "is_query_call ev"
  shows "ev \<in> set (snd (main m e i w)) \<longleftrightarrow>
         query_gate e i \<and> ev \<in> set (snd (snd (snd (query_of m e i w))))"
proof -
  have up: "ev \<notin> set (snd (snd (snd (upload_of m e i w))))"
    using assms upload_try_evs [of ev m "secrets_apikey e" "uploaded_files i" "loader w" "vector_db w"]
    unfolding upload_of_def by auto
  have page: "ev \<in> set (snd (main_page m i (secrets_apikey e) (db_after_sidebar m e i w))) \<longleftrightarrow>
      ev \<in> set (snd (submit_block m i (secrets_apikey e) ''Unrestricted'' ''Uploaded documents''
                  (db_after_sidebar m e i w)))"
    using assms by (intro page_call_iff) auto
  have sub: "ev \<in> set (snd (submit_block m i (secrets_apikey e) ''Unrestricted''
                  ''Uploaded documents'' (db_after_sidebar m e i w))) \<longleftrightarrow>
      query_gate e i \<and> ev \<in> set (snd (snd (snd (query_of m e i w))))"
    using assms by (auto simp: submit_event_iff Let_def query_gate_def query_of_def)
  have "ev \<in> set (snd (main m e i w)) \<longleftrightarrow>
      ev \<in> set (snd (main_page m i (secrets_apikey e) (db_after_sidebar m e i w)))"
    using assms up by (auto simp: main_event_iff)
  with page sub show ?thesis by simp
qed

lemma query_of_evs:
  "ev \<in> set (snd (snd (snd (query_of m e i w)))) \<Longrightarrow>
     ev = CreateLLM (secrets_apikey e) (temperature i) \<or>
     ev = CreateChain ''Unrestricted'' ''Uploaded documents'' \<or>
     ev = GetResponse (user_instructions i @ '' '' @ user_information i @ '' '' @ user_input i)"
  unfolding query_of_def by (rule query_try_evs)


lemma main_ingest_call_iff:
  assumes "is_ingest_call ev"
  shows "ev \<in> set (snd (main m e i w)) \<longleftrightarrow>
         upload_gate e i \<and> ev \<in> set (snd (snd (snd (upload_of m e i w))))"
proof -
  have q: "ev \<notin> set (snd (snd (snd (query_try m k t pm src q v))))" for k t pm src q v
    using assms query_try_evs [of ev m k t pm src q v] by auto
  have sub: "ev \<notin> set (snd (submit_block m i k pm src v))" for k pm src v
    using assms q by (auto simp: submit_event_iff Let_def)
  have page: "ev \<notin> set (snd (main_page m i k v))" for k v
    using assms sub by (subst page_call_iff) auto
  show ?thesis
    using assms page by (auto simp: main_event_iff label_complete_def)
qed

lemma main_chunks_iff:
  "GetChunks fs \<in> set (snd (main m e i w)) \<longleftrightarrow> upload_gate e i \<and> fs = uploaded_files i"
  using upload_try_evs [of "GetChunks fs" m "secrets_apikey e" "uploaded_files i" "loader w" "vector_db w"]
    upload_try_chunks_called [of "uploaded_files i" m "secrets_apikey e" "loader w" "vector_db w"]
  by (auto simp: main_ingest_call_iff upload_of_def)


lemma main_usage_value:
  "usage_value (fst (main m e i w)) =
     usage_value w +
       (if upload_succeeded m e i w
        then int (length (document_names m (loader (fst (main m e i w))))) else 0)"
  by (simp add: usage_value_def [of "fst (main m e i w)"] main_usage_counter main_loader
      upload_succeeded_def)

lemma runs_usage_mono: "usage_value w \<le> usage_value (runs m e js w)"
proof (induction js arbitrary: w)
  case Nil
  show ?case by simp
next
  case (Cons j js)
  have "usage_value w \<le> usage_value (fst (main m e j w))"
    by (simp add: main_usage_value)
  also have "\<dots> \<le> usage_value (runs m e js (fst (main m e j w)))"
    by (rule Cons.IH)
  finally show ?case by simp
qed

text \<open>
  The \<^verbatim>\<open>st.info\<close> elements of a run: the info bar, and the answer under its heading when
  the query returned one.
\<close>

lemma main_info_iff:
  "StInfo a \<in> set (snd (main m e i w)) \<longleftrightarrow>
     a = info_bar (db_document_names m (db_after_sidebar m e i w)) \<or>
     (query_gate e i \<and> fst (snd (query_of m e i w)) \<noteq> None \<and>
        (a = ''Anschreiben:'' \<or> fst (snd (query_of m e i w)) = Some a))"
proof -
  have up: "StInfo a \<notin> set (snd (snd (snd (upload_of m e i w))))"
    using upload_try_evs [of "StInfo a" m "secrets_apikey e" "uploaded_files i" "loader w" "vector_db w"]
    unfolding upload_of_def by auto
  have q: "StInfo a \<notin> set (snd (snd (snd (query_of m e i w))))"
    using query_of_evs [of "StInfo a" m e i w] by auto
  have "StInfo a \<in> set (snd (main m e i w)) \<longleftrightarrow>
      StInfo a \<in> set (snd (main_page m i (secrets_apikey e) (db_after_sidebar m e i w)))"
    using up by (auto simp: main_event_iff)
  also have "\<dots> \<longleftrightarrow> a = info_bar (db_document_names m (db_after_sidebar m e i w)) \<or>
      StInfo a \<in> set (snd (submit_block m i (secrets_apikey e) ''Unrestricted''
                  ''Uploaded documents'' (db_after_sidebar m e i w)))"
    by (auto simp: main_page_events)
  also have "StInfo a \<in> set (snd (submit_block m i (secrets_apikey e) ''Unrestricted''
                  ''Uploaded documents'' (db_after_sidebar m e i w))) \<longleftrightarrow>
      query_gate e i \<and> fst (snd (query_of m e i w)) \<noteq> None \<and>
        (a = ''Anschreiben:'' \<or> fst (snd (query_of m e i w)) = Some a)"
    using q unfolding submit_event_iff Let_def query_gate_def
    by (auto simp: query_of_def)
  finally show ?thesis .
qed

lemma main_info_bar: "StInfo (info_bar (db_document_names m (db_after_sidebar m e i w)))
     \<in> set (snd (main m e i w))"
  by (simp add: main_info_iff)

lemma info_bar_not_answer_head: "''Anschreiben:'' \<noteq> info_bar ns"
  by (simp add: info_bar_def)

text \<open>
  The info bar's text when the database has no document names.
\<close>

lemma info_bar_empty:
  "info_bar [] = ''Hochgeladene Dokumente: '' @ [CHR 0x0A, CHR 0x0A] @ '' Noch keine Dokumente hochgeladen!''"
  by (simp add: info_bar_def doc_name_display_def)

lemma main_query_error_iff:
  "StError s \<in> set (snd (main m e i w)) \<longleftrightarrow>
     query_gate e i \<and> fst (query_of m e i w) \<noteq> None \<and>
     s = ''Error occured, unable to process response!''"
proof -
  have up: "StError s \<notin> set (snd (snd (snd (upload_of m e i w))))"
    using upload_try_evs [of "StError s" m "secrets_apikey e" "uploaded_files i" "loader w" "vector_db w"]
    unfolding upload_of_def by auto
  have q: "StError s \<notin> set (snd (snd (snd (query_of m e i w))))"
    using query_of_evs [of "StError s" m e i w] by auto
  have "StError s \<in> set (snd (main m e i w)) \<longleftrightarrow>
      StError s \<in> set (snd (main_page m i (secrets_apikey e) (db_after_sidebar m e i w)))"
    using up by (auto simp: main_event_iff)
  also have "\<dots> \<longleftrightarrow>
      StError s \<in> set (snd (submit_block m i (secrets_apikey e) ''Unrestricted''
                  ''Uploaded documents'' (db_after_sidebar m e i w)))"
    by (intro page_call_iff) auto
  also have "\<dots> \<longleftrightarrow> query_gate e i \<and> fst (query_of m e i w) \<noteq> None \<and>
     s = ''Error occured, unable to process response!''"
    using q unfolding submit_event_iff Let_def query_gate_def
    by (auto simp: query_of_def)
  finally show ?thesis .
qed


text \<open>
  The events of a run that report how the upload ended.
\<close>

lemma main_report_iff:
  assumes "\<not> is_query_call ev" "\<And>s. ev \<noteq> StMarkdown s" "\<And>s. ev \<noteq> StInfo s"
    "\<And>s. ev \<noteq> StWrite s" "\<And>s. ev \<noteq> StWarning s" "\<And>s. ev \<noteq> StError s"
    "\<And>s. ev \<noteq> LoggerError s" "\<not> is_ingest_call ev" "\<And>s. ev \<noteq> StStatus s"
    "\<And>s. ev \<noteq> LoggerInfo s"
  shows "ev \<in> set (snd (main m e i w)) \<longleftrightarrow>
     upload_succeeded m e i w \<and>
       (ev = LoggerInfoList ''Erfolgreich hochgeladen: ''
                (document_names m (fst (snd (upload_of m e i w)))) \<or>
        ev = StatusUpdate label_complete ''complete'') \<or>
     upload_failed m e i w \<and> ev = StatusUpdate ''Error occured.'' ''error''"
proof -
  have q: "ev \<notin> set (snd (snd (snd (query_try m k t pm src q v))))" for k t pm src q v
    using assms(1) query_try_evs [of ev m k t pm src q v] by auto
  have sub: "ev \<notin> set (snd (submit_block m i k pm src v))" for k pm src v
    using assms q by (auto simp: submit_event_iff Let_def)
  have page: "ev \<notin> set (snd (main_page m i k v))" for k v
    using assms sub by (subst page_call_iff) auto
  have up: "ev \<notin> set (snd (snd (snd (upload_of m e i w))))"
    using assms upload_try_evs [of ev m "secrets_apikey e" "uploaded_files i" "loader w" "vector_db w"]
    unfolding upload_of_def by auto
  show ?thesis
    using assms page up by (auto simp: main_event_iff)
qed

lemma main_failed_reported:
  assumes "upload_failed m e i w"
  shows "StatusUpdate ''Error occured.'' ''error'' \<in> set (snd (main m e i w))"
    and "LoggerError ''Exception during Splitting / embedding'' \<in> set (snd (main m e i w))"
  using assms by (simp_all add: main_event_iff)

lemma failed_not_succeeded:
  "upload_failed m e i w \<Longrightarrow> \<not> upload_succeeded m e i w"
  by (simp add: upload_failed_def upload_succeeded_def)

lemma spec_initialize_names:
  "fst (spec_initialize build segments names ix) = None \<Longrightarrow>
     index_document_names (snd (spec_initialize build segments names ix)) = names"
  by (cases "build segments") (simp_all add: spec_initialize_def)

lemma temperature_options_iff:
  "t \<in> set temperature_options \<longleftrightarrow> (\<exists>x<21. t = of_nat x / 10)"
  by (auto simp: temperature_options_def)

lemma query_try_db:
  "fst (snd (snd (query_try m k t pm src q v))) = snd (create_llm m k t v) \<or>
   fst (snd (snd (query_try m k t pm src q v))) =
     snd (create_chain m pm src (snd (create_llm m k t v))) \<or>
   fst (snd (snd (query_try m k t pm src q v))) =
     snd (get_response m q (snd (create_chain m pm src (snd (create_llm m k t v)))))"
  unfolding query_try_def Let_def
  by (cases "create_llm m k t v"; cases "fst (create_llm m k t v)";
      cases "create_chain m pm src (snd (create_llm m k t v))";
      cases "fst (create_chain m pm src (snd (create_llm m k t v)))";
      cases "get_response m q (snd (create_chain m pm src (snd (create_llm m k t v))))";
      cases "fst (get_response m q (snd (create_chain m pm src (snd (create_llm m k t v)))))")
     auto

lemma query_try_keeps_names:
  assumes "query_reads_index_only m"
  shows "db_document_names m (fst (snd (snd (query_try m k t pm src q v)))) =
         db_document_names m v"
proof -
  from assms have
    a: "\<And>key temp v. db_document_names m (snd (create_llm m key temp v)) = db_document_names m v"
    and b: "\<And>p s v. db_document_names m (snd (create_chain m p s v)) = db_document_names m v"
    and c: "\<And>q v. db_document_names m (snd (get_response m q v)) = db_document_names m v"
    by (simp_all add: query_reads_index_only_def)
  from query_try_db [of m k t pm src q v] show ?thesis
    by (elim disjE) (simp_all add: a b c)
qed

lemma submit_block_keeps_names:
  assumes "query_reads_index_only m"
  shows "db_document_names m (fst (submit_block m i k pm src v)) = db_document_names m v"
proof (cases "submit_pressed i \<and> startswith k ''sk-''")
  case False
  then show ?thesis by (simp add: submit_block_closed)
next
  case True
  obtain raised result v' calls where
    q: "query_try m k (temperature i) pm src
          (user_instructions i @ '' '' @ user_information i @ '' '' @ user_input i) v =
        (raised, result, v', calls)"
    by (cases "query_try m k (temperature i) pm src
          (user_instructions i @ '' '' @ user_information i @ '' '' @ user_input i) v") auto
  from True have s: "submit_pressed i" and k: "startswith k ''sk-''" by auto
  have "db_document_names m v' = db_document_names m v"
    using query_try_keeps_names [OF assms, of k "temperature i" pm src
      "user_instructions i @ '' '' @ user_information i @ '' '' @ user_input i" v]
    unfolding q by simp
  then show ?thesis by (simp add: submit_block_open [OF s k q])
qed

lemma main_keeps_names:
  assumes "query_reads_index_only m"
  shows "db_document_names m (vector_db (fst (main m e i w))) =
         db_document_names m (db_after_sidebar m e i w)"
  by (simp add: main_db main_page_db submit_block_keeps_names [OF assms])

lemma query_try_llm_raised:
  "fst (create_llm m k t v) = Some ex \<Longrightarrow>
     query_try m k t pm src q v = (Some ex, None, snd (create_llm m k t v), [CreateLLM k t])"
  unfolding query_try_def Let_def
  by (cases "create_llm m k t v") auto

lemma upload_try_embedding_raised:
  "fst (get_chunks m fs l) = None \<Longrightarrow> fst (create_embedding_function m k v) = Some ex \<Longrightarrow>
     upload_try m k fs l v =
       (Some ex, snd (get_chunks m fs l), snd (create_embedding_function m k v),
        [StWrite ''Dokumente werden verarbeitet...'', GetChunks fs,
         StWrite ''Embeddings werden erstellt...'', CreateEmbeddingFunction k])"
  unfolding upload_try_def Let_def
  by (cases "get_chunks m fs l"; cases "create_embedding_function m k v") auto

lemma spec_chunk_names_set:
  "set (chunk_document_names (spec_chunk extractor files)) =
     name ` {f \<in> set files. extractor f \<noteq> None}"
  by (auto simp: spec_chunk_def)

lemma spec_chunk_names_distinct:
  "distinct (chunk_document_names (spec_chunk extractor files))"
  by (simp add: spec_chunk_def)

lemma spec_create_llm_outcome:
  "fst (spec_create_llm configure key temp v) =
     (if 0 \<le> temp \<and> temp \<le> 2 then None else Some InvalidParameter)"
  by (simp add: spec_create_llm_def)

text \<open>
  With the index of the specification as the database and any loader: after a
  successful upload the main page starts with the names the loader holds after
  \<^verbatim>\<open>get_chunks\<close>, which are those passed to \<^verbatim>\<open>initialize_database\<close>.
\<close>

lemma index_names_after_upload:
  assumes "initialize_database m = spec_initialize build"
    and "db_document_names m = index_document_names"
    and "upload_succeeded m e i w"
  shows "db_document_names m (db_after_sidebar m e i w) =
           document_names m (snd (get_chunks m (uploaded_files i) (loader w)))"
    and "InitializeDatabase
             (document_chunks_full m (snd (get_chunks m (uploaded_files i) (loader w))))
             (document_names m (snd (get_chunks m (uploaded_files i) (loader w))))
           \<in> set (snd (main m e i w))"
proof -
  let ?l1 = "snd (get_chunks m (uploaded_files i) (loader w))"
  from assms(3) have g: "upload_gate e i"
    and s: "fst (upload_try m (secrets_apikey e) (uploaded_files i) (loader w) (vector_db w)) = None"
    by (simp_all add: upload_succeeded_def upload_of_def)
  define v2 where
    "v2 = snd (create_embedding_function m (secrets_apikey e) (vector_db w))"
  from upload_try_succeeded [OF s] have
    r: "fst (initialize_database m (document_chunks_full m ?l1) (document_names m ?l1) v2) = None"
    and d: "fst (snd (snd (upload_of m e i w))) =
              snd (initialize_database m (document_chunks_full m ?l1) (document_names m ?l1) v2)"
    and c: "InitializeDatabase (document_chunks_full m ?l1) (document_names m ?l1)
              \<in> set (snd (snd (snd (upload_of m e i w))))"
    unfolding upload_of_def v2_def by blast+
  show "db_document_names m (db_after_sidebar m e i w) = document_names m ?l1"
    using g r d by (simp add: db_after_sidebar_def assms(1,2) spec_initialize_names)
  show "InitializeDatabase (document_chunks_full m ?l1) (document_names m ?l1)
           \<in> set (snd (main m e i w))"
    using g c by (simp add: main_ingest_call_iff)
qed

section \<open>Runs of the concrete instance\<close>

lemma demo_ask:
  "main demo_modules demo_env ask fresh_world =
    (fresh_world\<lparr>session := \<lparr>config = Some \<lparr>local_flag = True\<rparr>, usage_counter = Some 0,
        openai_api_key_host = ''sk-host''\<rparr>\<rparr>,
     [StMarkdown ''## :rocket: Willkommen zu deinem Bewerbungs-Assistenten'',
      StInfo (info_bar []),
      CreateLLM ''sk-host'' 1,
      CreateChain ''Unrestricted'' ''Uploaded documents'',
      GetResponse ''Du bist ein Bewerbungs-Assistent. Ich bin Max. Erstelle mir ein Anschreiben.'',
      StInfo ''Anschreiben:'', StInfo ''Sehr geehrter Herr Mustermensch''])"
  by (simp add: main_def demo_modules_def demo_env_def ask_def idle_def fresh_world_def
      fresh_session_def initialize_session_state_def uploaded_files_def file_uploader_def
      upload_block_def main_page_def submit_block_def query_try_def startswith_def
      Let_def)

text \<open>
  A question asked on a fresh state, with the slider at \<open>t\<close>.
\<close>

lemma demo_ask_temperature:
  "main demo_modules demo_env (ask\<lparr>temperature := t\<rparr>) fresh_world =
    (fresh_world\<lparr>session := \<lparr>config = Some \<lparr>local_flag = True\<rparr>, usage_counter = Some 0,
        openai_api_key_host = ''sk-host''\<rparr>\<rparr>,
     [StMarkdown ''## :rocket: Willkommen zu deinem Bewerbungs-Assistenten'',
      StInfo (info_bar []),
      CreateLLM ''sk-host'' t,
      CreateChain ''Unrestricted'' ''Uploaded documents'',
      GetResponse ''Du bist ein Bewerbungs-Assistent. Ich bin Max. Erstelle mir ein Anschreiben.'',
      StInfo ''Anschreiben:'', StInfo ''Sehr geehrter Herr Mustermensch''])"
  by (simp add: main_def demo_modules_def demo_env_def ask_def idle_def fresh_world_def
      fresh_session_def initialize_session_state_def uploaded_files_def file_uploader_def
      upload_block_def main_page_def submit_block_def query_try_def startswith_def
      Let_def)

text \<open>
  A question asked while the language model is out of reach.
\<close>

lemma failing_ask:
  "main failing_modules demo_env ask fresh_world =
    (fresh_world\<lparr>session := \<lparr>config = Some \<lparr>local_flag = True\<rparr>, usage_counter = Some 0,
        openai_api_key_host = ''sk-host''\<rparr>\<rparr>,
     [StMarkdown ''## :rocket: Willkommen zu deinem Bewerbungs-Assistenten'',
      StInfo (info_bar []),
      CreateLLM ''sk-host'' 1,
      CreateChain ''Unrestricted'' ''Uploaded documents'',
      GetResponse ''Du bist ein Bewerbungs-Assistent. Ich bin Max. Erstelle mir ein Anschreiben.'',
      LoggerError ''Exception during Querying'',
      StError ''Error occured, unable to process response!''])"
  by (simp add: main_def failing_modules_def demo_modules_def demo_env_def ask_def idle_def fresh_world_def
      fresh_session_def initialize_session_state_def uploaded_files_def file_uploader_def
      upload_block_def main_page_def submit_block_def query_try_def startswith_def
      Let_def)

lemma ask_gates:
  "query_gate demo_env ask" "\<not> upload_gate demo_env ask"
  by (simp_all add: query_gate_def upload_gate_def demo_env_def ask_def idle_def startswith_def)


lemma demo_files:
  "uploaded_files (upload [resume, posting]) = [resume, posting]"
  "uploaded_files (upload [resume]) = [resume]"
  "uploaded_files (upload [resume, broken]) = [resume, broken]"
  "uploaded_files (upload [md_notes]) = []"
  "uploaded_files (upload [resume, md_notes, posting]) = [resume, posting]"
  "uploaded_files ((upload [resume])\<lparr>password := ''falsch''\<rparr>) = [resume]"
  by (simp_all add: uploaded_files_def file_uploader_def upload_def idle_def extension_def
      resume_def posting_def broken_def md_notes_def)

text \<open>
  Runs of the concrete instance with an upload: two good files; a good file and one
  without content; a file of a type the uploader does not allow; and a sequence of runs.
\<close>

lemma demo_upload_two:
  "main demo_modules demo_env (upload [resume, posting]) fresh_world =
    (\<lparr>session = \<lparr>config = Some \<lparr>local_flag = True\<rparr>, usage_counter = Some 2,
        openai_api_key_host = ''sk-host''\<rparr>,
      loader = ([''Lebenslauf'', ''Stelle''], [''resume.pdf'', ''posting.txt'']),
      vector_db = ([''Lebenslauf'', ''Stelle''], [''resume.pdf'', ''posting.txt''])\<rparr>,
     [StStatus ''Lade hoch (das kann einen Moment dauern)...)'',
      StWrite ''Dokumente werden verarbeitet...'',
      GetChunks [resume, posting],
      StWrite ''Embeddings werden erstellt...'',
      CreateEmbeddingFunction ''sk-host'',
      InitializeDatabase [''Lebenslauf'', ''Stelle''] [''resume.pdf'', ''posting.txt''],
      LoggerInfo ''Current usage counter: 2'',
      LoggerInfoList ''Erfolgreich hochgeladen: '' [''resume.pdf'', ''posting.txt''],
      StatusUpdate label_complete ''complete'',
      StMarkdown ''## :rocket: Willkommen zu deinem Bewerbungs-Assistenten'',
      StInfo (info_bar [''resume.pdf'', ''posting.txt''])])"
  by code_simp

lemma demo_upload_broken:
  "main demo_modules demo_env (upload [resume, broken]) fresh_world =
    (\<lparr>session = \<lparr>config = Some \<lparr>local_flag = True\<rparr>, usage_counter = Some 0,
        openai_api_key_host = ''sk-host''\<rparr>,
      loader = ([], []), vector_db = ([], [])\<rparr>,
     [StStatus ''Lade hoch (das kann einen Moment dauern)...)'',
      StWrite ''Dokumente werden verarbeitet...'',
      GetChunks [resume, broken],
      LoggerError ''Exception during Splitting / embedding'',
      StatusUpdate ''Error occured.'' ''error'',
      StMarkdown ''## :rocket: Willkommen zu deinem Bewerbungs-Assistenten'',
      StInfo (info_bar [])])"
  by code_simp

lemma demo_upload_notes:
  "main demo_modules demo_env (upload [md_notes]) fresh_world =
    (\<lparr>session = \<lparr>config = Some \<lparr>local_flag = True\<rparr>, usage_counter = Some 0,
        openai_api_key_host = ''sk-host''\<rparr>,
      loader = ([], []), vector_db = ([], [])\<rparr>,
     [StMarkdown ''## :rocket: Willkommen zu deinem Bewerbungs-Assistenten'',
      StInfo (info_bar [])])"
  by code_simp

lemma demo_runs:
  "usage_value (runs demo_modules demo_env
     [upload [resume, posting], ask, upload [resume, broken], upload [resume]] fresh_world) = 3"
  by code_simp

lemma demo_succeeded:
  "upload_succeeded demo_modules demo_env (upload [resume, posting]) fresh_world"
  "upload_failed demo_modules demo_env (upload [resume, broken]) fresh_world"
  by code_simp+


lemma spec_reads_index_only: "query_reads_index_only spec_modules"
  by (simp add: query_reads_index_only_def spec_modules_def spec_create_llm_def)

lemma spec_create_llm_is: "create_llm spec_modules = spec_create_llm (\<lambda>key temp v. v)"
  by (simp add: spec_modules_def)


text \<open>
  Questions asked of the collaborators of the specification with the slider at its
  boundary values.
\<close>

lemma spec_ask_boundary:
  "snd (main spec_modules demo_env (ask\<lparr>temperature := 0\<rparr>) spec_world) =
     [StMarkdown ''## :rocket: Willkommen zu deinem Bewerbungs-Assistenten'',
      StInfo (info_bar []),
      CreateLLM ''sk-host'' 0,
      CreateChain ''Unrestricted'' ''Uploaded documents'',
      GetResponse ''Du bist ein Bewerbungs-Assistent. Ich bin Max. Erstelle mir ein Anschreiben.'',
      StInfo ''Anschreiben:'', StInfo ''Sehr geehrter Herr Mustermensch'']"
  "snd (main spec_modules demo_env (ask\<lparr>temperature := 2\<rparr>) spec_world) =
     [StMarkdown ''## :rocket: Willkommen zu deinem Bewerbungs-Assistenten'',
      StInfo (info_bar []),
      CreateLLM ''sk-host'' 2,
      CreateChain ''Unrestricted'' ''Uploaded documents'',
      GetResponse ''Du bist ein Bewerbungs-Assistent. Ich bin Max. Erstelle mir ein Anschreiben.'',
      StInfo ''Anschreiben:'', StInfo ''Sehr geehrter Herr Mustermensch'']"
  by code_simp+

text \<open>
  The scenario of the specification: \<^verbatim>\<open>resume.pdf\<close> and \<^verbatim>\<open>posting.txt\<close> are uploaded, then
  \<^verbatim>\<open>resume.pdf\<close> alone.
\<close>

lemma spec_first_upload:
  "fst (main spec_modules demo_env (upload [resume, posting]) spec_world) =
    \<lparr>session = \<lparr>config = Some \<lparr>local_flag = True\<rparr>, usage_counter = Some 2,
        openai_api_key_host = ''sk-host''\<rparr>,
      loader = \<lparr>chunk_segments = [''Lebenslauf'', ''Stelle''],
                chunk_document_names = [''resume.pdf'', ''posting.txt''], chunk_failed = []\<rparr>,
      vector_db = \<lparr>index_segments = [''Lebenslauf'', ''Stelle''],
                   index_document_names = [''resume.pdf'', ''posting.txt'']\<rparr>\<rparr>"
  by code_simp

lemma spec_second_upload:
  "upload_succeeded spec_modules demo_env (upload [resume])
     (fst (main spec_modules demo_env (upload [resume, posting]) spec_world))"
  "chunk_document_names (spec_chunk demo_extractor (uploaded_files (upload [resume]))) =
     [''resume.pdf'']"
  by code_simp+

section \<open>The properties\<close>

subsection \<open>Replacing the index (C1)\<close>

text \<open>
  Claim C1, with the collaborators of the specification. Let the loader be the Chunker
  of the specification (its result is a function of the batch alone), the database its
  Embedding Index (\<^verbatim>\<open>initialize_database\<close> replaces, \<^verbatim>\<open>document_names\<close> projects), and let
  the query methods read the index only. After every successful upload, from whatever
  state \<open>w\<close> earlier runs left and whether or not a question is submitted in the same
  run, the index's document names at the end of the run are exactly the names produced
  by chunking this batch: the names of the uploaded files that could be extracted, each
  once. The state before the run does not enter them, so they are never a union with an
  earlier upload. \<^verbatim>\<open>main\<close> passes exactly these names to \<^verbatim>\<open>initialize_database\<close> and shows
  them in the info bar.
\<close>

theorem reingest_replaces_index:
  assumes "get_chunks m = spec_get_chunks extractor"
    and "document_names m = chunk_document_names"
    and "initialize_database m = spec_initialize build"
    and "db_document_names m = index_document_names"
    and "query_reads_index_only m"
    and "upload_succeeded m e i w"
  shows "index_document_names (vector_db (fst (main m e i w))) =
           chunk_document_names (spec_chunk extractor (uploaded_files i)) \<and>
         set (index_document_names (vector_db (fst (main m e i w)))) =
           name ` {f \<in> set (uploaded_files i). extractor f \<noteq> None} \<and>
         distinct (index_document_names (vector_db (fst (main m e i w)))) \<and>
         InitializeDatabase
             (document_chunks_full m (spec_chunk extractor (uploaded_files i)))
             (chunk_document_names (spec_chunk extractor (uploaded_files i)))
           \<in> set (snd (main m e i w)) \<and>
         StInfo (info_bar (chunk_document_names (spec_chunk extractor (uploaded_files i))))
           \<in> set (snd (main m e i w))"
proof -
  let ?names = "chunk_document_names (spec_chunk extractor (uploaded_files i))"
  have l: "snd (get_chunks m (uploaded_files i) (loader w)) =
      spec_chunk extractor (uploaded_files i)"
    by (simp add: assms(1) spec_get_chunks_def)
  have side: "db_document_names m (db_after_sidebar m e i w) = ?names"
    using index_names_after_upload(1) [OF assms(3,4,6)] by (simp add: l assms(2))
  have fin: "index_document_names (vector_db (fst (main m e i w))) = ?names"
    using main_keeps_names [OF assms(5), of e i w] side by (simp add: assms(4))
  have call: "InitializeDatabase (document_chunks_full m (spec_chunk extractor (uploaded_files i)))
      ?names \<in> set (snd (main m e i w))"
    using index_names_after_upload(2) [OF assms(3,4,6)] by (simp add: l assms(2))
  have bar: "StInfo (info_bar ?names) \<in> set (snd (main m e i w))"
    using main_info_bar [of m e i w] by (simp only: side)
  have st: "set (index_document_names (vector_db (fst (main m e i w)))) =
      name ` {f \<in> set (uploaded_files i). extractor f \<noteq> None}"
    by (simp only: fin spec_chunk_names_set)
  have di: "distinct (index_document_names (vector_db (fst (main m e i w))))"
    by (simp only: fin spec_chunk_names_distinct)
  show ?thesis by (intro conjI fin st di call bar)
qed

text \<open>
  The scenario of the specification: after \<^verbatim>\<open>resume.pdf\<close> and \<^verbatim>\<open>posting.txt\<close> the index
  names both; after a second upload of \<^verbatim>\<open>resume.pdf\<close> alone it names \<^verbatim>\<open>resume.pdf\<close> only,
  not the union with the first upload.
\<close>

theorem reingest_replaces_index_witness:
  "index_document_names (vector_db
     (fst (main spec_modules demo_env (upload [resume, posting]) spec_world))) =
     [''resume.pdf'', ''posting.txt''] \<and>
   upload_succeeded spec_modules demo_env (upload [resume])
     (fst (main spec_modules demo_env (upload [resume, posting]) spec_world)) \<and>
   query_reads_index_only spec_modules \<and>
   index_document_names (vector_db
     (fst (main spec_modules demo_env (upload [resume])
        (fst (main spec_modules demo_env (upload [resume, posting]) spec_world))))) =
     [''resume.pdf'']"
proof -
  have a: "get_chunks spec_modules = spec_get_chunks demo_extractor"
    by (simp add: spec_modules_def)
  have b: "document_names spec_modules = chunk_document_names"
    by (simp add: spec_modules_def)
  have c: "initialize_database spec_modules = spec_initialize (\<lambda>segments. None)"
    by (simp add: spec_modules_def)
  have d: "db_document_names spec_modules = index_document_names"
    by (simp add: spec_modules_def)
  have c1: "index_document_names (vector_db
     (fst (main spec_modules demo_env (upload [resume, posting]) spec_world))) =
     [''resume.pdf'', ''posting.txt'']"
    by (simp add: spec_first_upload)
  have c3: "index_document_names (vector_db
     (fst (main spec_modules demo_env (upload [resume])
        (fst (main spec_modules demo_env (upload [resume, posting]) spec_world))))) =
     [''resume.pdf'']"
    using reingest_replaces_index [OF a b c d spec_reads_index_only spec_second_upload(1)]
    by (simp only: spec_second_upload(2))
  show ?thesis by (intro conjI c1 spec_second_upload(1) spec_reads_index_only c3)
qed

subsection \<open>Readiness of the query (C2)\<close>

text \<open>
  Claim C2 as stated fails. On a fresh state no document has been ingested and the
  database's \<^verbatim>\<open>document_names\<close> is empty; a submitted question is answered all the
  same: the run creates the model and the chain, asks for the response and shows the
  answer, and reports no error.
\<close>

theorem query_without_documents:
  "db_document_names demo_modules (vector_db fresh_world) = [] \<and>
   snd (main demo_modules demo_env ask fresh_world) =
     [StMarkdown ''## :rocket: Willkommen zu deinem Bewerbungs-Assistenten'',
      StInfo (info_bar []),
      CreateLLM ''sk-host'' 1,
      CreateChain ''Unrestricted'' ''Uploaded documents'',
      GetResponse ''Du bist ein Bewerbungs-Assistent. Ich bin Max. Erstelle mir ein Anschreiben.'',
      StInfo ''Anschreiben:'', StInfo ''Sehr geehrter Herr Mustermensch'']"
  by (simp add: demo_ask) (simp add: demo_modules_def fresh_world_def)

text \<open>
  Claim C2, amended. A run starts the query (it calls \<^verbatim>\<open>create_llm\<close>, with the host's
  key and the slider's temperature) exactly when the submit button was pressed and the
  key starts with \<^verbatim>\<open>'sk-'\<close>. The condition does not look at the index: the equivalence
  holds for every state \<open>w\<close>, with or without ingested documents.
\<close>

theorem query_starts_on_submit_and_key:
  "CreateLLM k t \<in> set (snd (main m e i w)) \<longleftrightarrow>
     submit_pressed i \<and> startswith (secrets_apikey e) ''sk-'' \<and>
     k = secrets_apikey e \<and> t = temperature i"
  using query_of_evs [of "CreateLLM k t" m e i w] query_try_llm [of "secrets_apikey e" "temperature i" m]
  by (auto simp: main_query_call_iff query_gate_def query_of_def)

text \<open>
  With an empty index, the query starts when the form is submitted and does not start
  when it is not.
\<close>

theorem query_starts_on_submit_and_key_witness:
  "db_document_names demo_modules (vector_db fresh_world) = [] \<and>
   CreateLLM ''sk-host'' 1 \<in> set (snd (main demo_modules demo_env ask fresh_world)) \<and>
   CreateLLM ''sk-host'' 1 \<notin> set (snd (main demo_modules demo_env idle fresh_world))"
  using query_starts_on_submit_and_key [of "''sk-host''" 1 demo_modules demo_env ask fresh_world]
    query_starts_on_submit_and_key [of "''sk-host''" 1 demo_modules demo_env idle fresh_world]
  by (simp add: demo_modules_def fresh_world_def demo_env_def ask_def idle_def startswith_def)

subsection \<open>Prompt mode and source scope (C3)\<close>

text \<open>
  Claim C3. For every query submission the chain is created with the constant prompt
  mode \<^verbatim>\<open>'Unrestricted'\<close> and the constant source scope \<^verbatim>\<open>'Uploaded documents'\<close>: every
  call of \<^verbatim>\<open>create_chain\<close> a run makes, whatever the collaborators, the state and the
  interaction are, has exactly these two arguments, so no path selects the Restricted
  mode or another scope.
\<close>

theorem chain_is_unrestricted:
  "CreateChain p s \<in> set (snd (main m e i w)) \<Longrightarrow>
     p = ''Unrestricted'' \<and> s = ''Uploaded documents''"
  using query_of_evs [of "CreateChain p s" m e i w]
  by (simp add: main_query_call_iff)

text \<open>
  The run that asks a question creates the chain, with these arguments and not in the
  Restricted mode.
\<close>

theorem chain_is_unrestricted_witness:
  "CreateChain ''Unrestricted'' ''Uploaded documents''
     \<in> set (snd (main demo_modules demo_env ask fresh_world)) \<and>
   CreateChain ''Restricted'' ''Uploaded documents''
     \<notin> set (snd (main demo_modules demo_env ask fresh_world))"
proof -
  have h: "CreateChain ''Unrestricted'' ''Uploaded documents''
     \<in> set (snd (main demo_modules demo_env ask fresh_world))"
    by (simp add: demo_ask)
  show ?thesis
    using h chain_is_unrestricted [OF h]
      chain_is_unrestricted [of "''Restricted''" "''Uploaded documents''" demo_modules demo_env ask fresh_world]
    by auto
qed

subsection \<open>A failed upload (C4)\<close>

text \<open>
  Claim C4 as stated fails. A batch of a good file and a file the loader cannot extract,
  whose \<^verbatim>\<open>get_chunks\<close> raises: the one exception leaves the \<^verbatim>\<open>try\<close> that holds the whole
  upload, so the good file is not ingested either (the loader and the database stay
  empty, the info bar shows no document), and the report is the fixed label
  \<^verbatim>\<open>'Error occured.'\<close> and a fixed log message, which name no file.
\<close>

theorem one_bad_file_aborts_batch:
  "uploaded_files (upload [resume, broken]) = [resume, broken] \<and>
   main demo_modules demo_env (upload [resume, broken]) fresh_world =
    (\<lparr>session = \<lparr>config = Some \<lparr>local_flag = True\<rparr>, usage_counter = Some 0,
        openai_api_key_host = ''sk-host''\<rparr>,
      loader = ([], []), vector_db = ([], [])\<rparr>,
     [StStatus ''Lade hoch (das kann einen Moment dauern)...)'',
      StWrite ''Dokumente werden verarbeitet...'',
      GetChunks [resume, broken],
      LoggerError ''Exception during Splitting / embedding'',
      StatusUpdate ''Error occured.'' ''error'',
      StMarkdown ''## :rocket: Willkommen zu deinem Bewerbungs-Assistenten'',
      StInfo (''Hochgeladene Dokumente: '' @ [CHR 0x0A, CHR 0x0A] @
              '' Noch keine Dokumente hochgeladen!'')])"
  by (simp add: demo_files(3) demo_upload_broken info_bar_empty)

text \<open>
  Claim C4, amended. The upload of \<^verbatim>\<open>main\<close> is all or nothing for the batch. Chunking,
  creating the embedding function and initialising the database stand in one \<^verbatim>\<open>try\<close>;
  when an exception leaves it, whatever the collaborators and the files are, the run
  reports the fixed status \<^verbatim>\<open>'Error occured.'\<close> and the fixed log message, does not
  report completion or the names of ingested documents, and leaves the usage counter
  unchanged. When it is \<^verbatim>\<open>get_chunks\<close> that raised, nothing of the batch reaches the
  database: the main page starts with the database the run started with, and the events
  of the upload are the same five whatever file failed. When \<^verbatim>\<open>get_chunks\<close> or
  \<^verbatim>\<open>create_embedding_function\<close> raised, \<^verbatim>\<open>initialize_database\<close> is not called at all.
\<close>

theorem failed_upload_drops_batch:
  "upload_failed m e i w \<Longrightarrow>
     StatusUpdate ''Error occured.'' ''error'' \<in> set (snd (main m e i w)) \<and>
     LoggerError ''Exception during Splitting / embedding'' \<in> set (snd (main m e i w)) \<and>
     StatusUpdate label_complete ''complete'' \<notin> set (snd (main m e i w)) \<and>
     (\<forall>s ns. LoggerInfoList s ns \<notin> set (snd (main m e i w))) \<and>
     usage_value (fst (main m e i w)) = usage_value w \<and>
     (fst (get_chunks m (uploaded_files i) (loader w)) \<noteq> None \<longrightarrow>
        db_after_sidebar m e i w = vector_db w \<and>
        snd (main m e i w) =
          [StStatus ''Lade hoch (das kann einen Moment dauern)...)'',
           StWrite ''Dokumente werden verarbeitet...'',
           GetChunks (uploaded_files i),
           LoggerError ''Exception during Splitting / embedding'',
           StatusUpdate ''Error occured.'' ''error''] @
          snd (main_page m i (secrets_apikey e) (vector_db w))) \<and>
     (fst (get_chunks m (uploaded_files i) (loader w)) \<noteq> None \<or>
      fst (create_embedding_function m (secrets_apikey e) (vector_db w)) \<noteq> None \<longrightarrow>
        (\<forall>c ns. InitializeDatabase c ns \<notin> set (snd (main m e i w))))"
proof (intro conjI impI allI)
  assume f: "upload_failed m e i w"
  then have n: "\<not> upload_succeeded m e i w" by (rule failed_not_succeeded)
  from f show "StatusUpdate ''Error occured.'' ''error'' \<in> set (snd (main m e i w))"
    by (rule main_failed_reported)
  from f show "LoggerError ''Exception during Splitting / embedding'' \<in> set (snd (main m e i w))"
    by (rule main_failed_reported)
  from n show "StatusUpdate label_complete ''complete'' \<notin> set (snd (main m e i w))"
    by (subst main_report_iff) simp_all
  from n show "LoggerInfoList s ns \<notin> set (snd (main m e i w))" for s ns
    by (subst main_report_iff) simp_all
  from n show "usage_value (fst (main m e i w)) = usage_value w"
    by (simp add: main_usage_value)
  from f have g: "upload_gate e i" by (simp add: upload_failed_def)
  { assume "fst (get_chunks m (uploaded_files i) (loader w)) \<noteq> None"
    then obtain ex where "fst (get_chunks m (uploaded_files i) (loader w)) = Some ex" by auto
    then have u: "upload_of m e i w =
        (Some ex, snd (get_chunks m (uploaded_files i) (loader w)), vector_db w,
         [StWrite ''Dokumente werden verarbeitet...'', GetChunks (uploaded_files i)])"
      unfolding upload_of_def by (rule upload_try_chunks_raised)
    from g u show "db_after_sidebar m e i w = vector_db w"
      by (simp add: db_after_sidebar_def)
    from g u show "snd (main m e i w) =
          [StStatus ''Lade hoch (das kann einen Moment dauern)...)'',
           StWrite ''Dokumente werden verarbeitet...'',
           GetChunks (uploaded_files i),
           LoggerError ''Exception during Splitting / embedding'',
           StatusUpdate ''Error occured.'' ''error''] @
          snd (main_page m i (secrets_apikey e) (vector_db w))"
      by (simp add: main_failed) }
  { fix c ns
    assume d: "fst (get_chunks m (uploaded_files i) (loader w)) \<noteq> None \<or>
      fst (create_embedding_function m (secrets_apikey e) (vector_db w)) \<noteq> None"
    have "InitializeDatabase c ns \<notin> set (snd (snd (snd (upload_of m e i w))))"
    proof (cases "fst (get_chunks m (uploaded_files i) (loader w))")
      case (Some ex)
      then show ?thesis
        unfolding upload_of_def by (simp add: upload_try_chunks_raised)
    next
      case None
      with d obtain ex where
        "fst (create_embedding_function m (secrets_apikey e) (vector_db w)) = Some ex" by auto
      with None show ?thesis
        unfolding upload_of_def by (simp add: upload_try_embedding_raised)
    qed
    then show "InitializeDatabase c ns \<notin> set (snd (main m e i w))"
      by (simp add: main_ingest_call_iff) }
qed

text \<open>
  The batch with the file without content: the upload failed, the error status is
  reported and not the completion, and the usage counter is unchanged.
\<close>

theorem failed_upload_drops_batch_witness:
  "upload_failed demo_modules demo_env (upload [resume, broken]) fresh_world \<and>
   StatusUpdate ''Error occured.'' ''error''
     \<in> set (snd (main demo_modules demo_env (upload [resume, broken]) fresh_world)) \<and>
   StatusUpdate label_complete ''complete''
     \<notin> set (snd (main demo_modules demo_env (upload [resume, broken]) fresh_world)) \<and>
   usage_value (fst (main demo_modules demo_env (upload [resume, broken]) fresh_world))
     = usage_value fresh_world"
proof -
  have f: "upload_failed demo_modules demo_env (upload [resume, broken]) fresh_world"
    by (rule demo_succeeded(2))
  note t = failed_upload_drops_batch [OF f]
  have c1: "StatusUpdate ''Error occured.'' ''error''
     \<in> set (snd (main demo_modules demo_env (upload [resume, broken]) fresh_world))"
    using t by blast
  have c2: "StatusUpdate label_complete ''complete''
     \<notin> set (snd (main demo_modules demo_env (upload [resume, broken]) fresh_world))"
    using t by blast
  have c3: "usage_value (fst (main demo_modules demo_env (upload [resume, broken]) fresh_world))
     = usage_value fresh_world"
    using t by blast
  show ?thesis by (intro conjI f c1 c2 c3)
qed

subsection \<open>The temperature (C5)\<close>

text \<open>
  Claim C5, with the Generation Client of the specification. For every query the
  temperature passed to \<^verbatim>\<open>create_llm\<close> is the slider's value, one of the options 0.0, 0.1,
  ..., 2.0, and so lies in [0.0, 2.0] inclusive, whatever the collaborators are; the
  boundary values 0.0 and 2.0 are options and 2.1 is not. When \<^verbatim>\<open>create_llm\<close> is that of
  the specification, every value in the range, the boundaries and every value of the
  slider included, is accepted, and every value out of the range fails with
  \<^verbatim>\<open>InvalidParameter\<close>: a query of \<^verbatim>\<open>main\<close> that carried such a value would end at
  \<^verbatim>\<open>create_llm\<close> with this exception, show the error message and no answer.
\<close>

theorem temperature_in_range:
  "(slider_ok i \<and> CreateLLM k t \<in> set (snd (main m e i w)) \<longrightarrow>
      t = temperature i \<and> t \<in> set temperature_options \<and> 0 \<le> t \<and> t \<le> 2) \<and>
   0 \<in> set temperature_options \<and> 2 \<in> set temperature_options \<and>
   21 / 10 \<notin> set temperature_options \<and>
   (create_llm m = spec_create_llm configure \<longrightarrow>
      (0 \<le> t' \<and> t' \<le> 2 \<longrightarrow> fst (create_llm m k' t' v) = None) \<and>
      (t' < 0 \<or> 2 < t' \<longrightarrow> fst (create_llm m k' t' v) = Some InvalidParameter) \<and>
      (slider_ok i \<longrightarrow> fst (create_llm m (secrets_apikey e) (temperature i) v) = None) \<and>
      (query_gate e i \<and> (temperature i < 0 \<or> 2 < temperature i) \<longrightarrow>
         fst (query_of m e i w) = Some InvalidParameter \<and>
         snd (snd (snd (query_of m e i w))) = [CreateLLM (secrets_apikey e) (temperature i)] \<and>
         StError ''Error occured, unable to process response!'' \<in> set (snd (main m e i w)) \<and>
         StInfo ''Anschreiben:'' \<notin> set (snd (main m e i w))))"
proof (intro conjI impI)
  assume a: "slider_ok i \<and> CreateLLM k t \<in> set (snd (main m e i w))"
  then show t: "t = temperature i"
    using query_of_evs [of "CreateLLM k t" m e i w] by (simp add: main_query_call_iff)
  with a show o: "t \<in> set temperature_options" by (simp add: slider_ok_def)
  then show "0 \<le> t" "t \<le> 2" by (auto simp: temperature_options_iff)
next
  show "0 \<in> set temperature_options" by (simp add: temperature_options_iff)
  have "\<exists>x<21. (2::rat) = of_nat x / 10" by (rule exI [of _ 20]) simp
  then show "2 \<in> set temperature_options" by (simp add: temperature_options_iff)
  show "21 / 10 \<notin> set temperature_options" by (auto simp: temperature_options_iff)
next
  assume s: "create_llm m = spec_create_llm configure"
  { assume "0 \<le> t' \<and> t' \<le> 2"
    then show "fst (create_llm m k' t' v) = None" by (simp add: s spec_create_llm_outcome) }
  { assume "t' < 0 \<or> 2 < t'"
    then show "fst (create_llm m k' t' v) = Some InvalidParameter"
      by (auto simp: s spec_create_llm_outcome) }
  { assume "slider_ok i"
    then have "0 \<le> temperature i \<and> temperature i \<le> 2"
      by (auto simp: slider_ok_def temperature_options_iff)
    then show "fst (create_llm m (secrets_apikey e) (temperature i) v) = None"
      by (simp add: s spec_create_llm_outcome) }
  { assume b: "query_gate e i \<and> (temperature i < 0 \<or> 2 < temperature i)"
    then have r: "fst (create_llm m (secrets_apikey e) (temperature i) (db_after_sidebar m e i w)) =
        Some InvalidParameter"
      by (auto simp: s spec_create_llm_outcome)
    have q: "query_of m e i w =
        (Some InvalidParameter, None,
         snd (create_llm m (secrets_apikey e) (temperature i) (db_after_sidebar m e i w)),
         [CreateLLM (secrets_apikey e) (temperature i)])"
      unfolding query_of_def by (rule query_try_llm_raised [OF r])
    from q show "fst (query_of m e i w) = Some InvalidParameter" by simp
    from q show "snd (snd (snd (query_of m e i w))) = [CreateLLM (secrets_apikey e) (temperature i)]"
      by simp
    from b q show "StError ''Error occured, unable to process response!'' \<in> set (snd (main m e i w))"
      by (simp add: main_query_error_iff)
    from q show "StInfo ''Anschreiben:'' \<notin> set (snd (main m e i w))"
      using info_bar_not_answer_head [of "db_document_names m (db_after_sidebar m e i w)"]
      by (simp add: main_info_iff) }
qed

text \<open>
  The boundary values 0.0 and 2.0 are passed to the client and accepted; a query with
  2.1 fails with \<^verbatim>\<open>InvalidParameter\<close> and shows no answer.
\<close>

theorem temperature_in_range_witness:
  "slider_ok (ask\<lparr>temperature := 0\<rparr>) \<and>
   CreateLLM ''sk-host'' 0
     \<in> set (snd (main spec_modules demo_env (ask\<lparr>temperature := 0\<rparr>) spec_world)) \<and>
   slider_ok (ask\<lparr>temperature := 2\<rparr>) \<and>
   CreateLLM ''sk-host'' 2
     \<in> set (snd (main spec_modules demo_env (ask\<lparr>temperature := 2\<rparr>) spec_world)) \<and>
   create_llm spec_modules = spec_create_llm (\<lambda>key temp v. v) \<and>
   fst (create_llm spec_modules ''sk-host'' 2 (vector_db spec_world)) = None \<and>
   query_gate demo_env (ask\<lparr>temperature := 21 / 10\<rparr>) \<and>
   fst (query_of spec_modules demo_env (ask\<lparr>temperature := 21 / 10\<rparr>) spec_world) =
     Some InvalidParameter \<and>
   StInfo ''Anschreiben:''
     \<notin> set (snd (main spec_modules demo_env (ask\<lparr>temperature := 21 / 10\<rparr>) spec_world))"
proof -
  have s0: "slider_ok (ask\<lparr>temperature := 0\<rparr>)"
    by (simp add: slider_ok_def temperature_options_iff)
  have s2: "slider_ok (ask\<lparr>temperature := 2\<rparr>)"
    unfolding slider_ok_def temperature_options_iff by (rule exI [of _ 20]) simp
  have c0: "CreateLLM ''sk-host'' 0
      \<in> set (snd (main spec_modules demo_env (ask\<lparr>temperature := 0\<rparr>) spec_world))"
    by (simp add: spec_ask_boundary)
  have c2: "CreateLLM ''sk-host'' 2
      \<in> set (snd (main spec_modules demo_env (ask\<lparr>temperature := 2\<rparr>) spec_world))"
    by (simp add: spec_ask_boundary)
  have g: "query_gate demo_env (ask\<lparr>temperature := 21 / 10\<rparr>) \<and>
      (temperature (ask\<lparr>temperature := 21 / 10\<rparr>) < 0 \<or>
       2 < temperature (ask\<lparr>temperature := 21 / 10\<rparr>))"
    by (simp add: query_gate_def demo_env_def ask_def idle_def startswith_def)
  note at2 = temperature_in_range [of "ask\<lparr>temperature := 2\<rparr>" "''sk-host''" 2 spec_modules
      demo_env spec_world "\<lambda>key temp v. v" 2 "''sk-host''" "vector_db spec_world"]
  note at21 = temperature_in_range [of "ask\<lparr>temperature := 21 / 10\<rparr>" "''sk-host''" 2
      spec_modules demo_env spec_world "\<lambda>key temp v. v" 2 "''sk-host''" "vector_db spec_world"]
  have a2: "fst (create_llm spec_modules ''sk-host'' 2 (vector_db spec_world)) = None"
    using spec_create_llm_is at2 by simp
  have e1: "fst (query_of spec_modules demo_env (ask\<lparr>temperature := 21 / 10\<rparr>) spec_world) =
      Some InvalidParameter"
    using spec_create_llm_is g at21 by blast
  have e2: "StInfo ''Anschreiben:''
      \<notin> set (snd (main spec_modules demo_env (ask\<lparr>temperature := 21 / 10\<rparr>) spec_world))"
    using spec_create_llm_is g at21 by blast
  from g have g1: "query_gate demo_env (ask\<lparr>temperature := 21 / 10\<rparr>)" by simp
  show ?thesis by (intro conjI s0 c0 s2 c2 spec_create_llm_is a2 g1 e1 e2)
qed

subsection \<open>The usage counter (C6)\<close>

text \<open>
  Claim C6. The usage counter never decreases. A session without the key starts at 0
  (\<^verbatim>\<open>initialize_session_state\<close>). After a run the counter is its value before plus the
  number of document names of the loader when the upload of the run succeeded, and its
  value before otherwise: a failed upload, a run without upload and a query leave it
  unchanged. Over any sequence of runs it is monotonically non-decreasing.
\<close>

theorem usage_counter_grows:
  "usage_counter (session (fst (main m e i w))) =
     Some (usage_value w +
       (if upload_succeeded m e i w
        then int (length (document_names m (loader (fst (main m e i w))))) else 0)) \<and>
   usage_value w \<le> usage_value (runs m e js w) \<and>
   usage_counter (initialize_session_state e (s\<lparr>usage_counter := None\<rparr>)) = Some 0"
  by (simp add: main_usage_counter main_loader upload_succeeded_def runs_usage_mono)

text \<open>
  Two documents ingested give 2; a failed upload and a query leave 0; four runs with
  two successful uploads of two and of one document give 3.
\<close>

theorem usage_counter_grows_witness:
  "usage_counter (session (fst (main demo_modules demo_env (upload [resume, posting]) fresh_world)))
     = Some 2 \<and>
   usage_counter (session (fst (main demo_modules demo_env (upload [resume, broken]) fresh_world)))
     = Some 0 \<and>
   usage_counter (session (fst (main demo_modules demo_env ask fresh_world))) = Some 0 \<and>
   usage_value fresh_world \<le> usage_value (runs demo_modules demo_env
     [upload [resume, posting], ask, upload [resume, broken], upload [resume]] fresh_world) \<and>
   usage_value (runs demo_modules demo_env
     [upload [resume, posting], ask, upload [resume, broken], upload [resume]] fresh_world) = 3"
proof -
  have v: "usage_value fresh_world = 0"
    by (simp add: usage_value_def fresh_world_def fresh_session_def)
  have l: "length (document_names demo_modules
             (loader (fst (main demo_modules demo_env (upload [resume, posting]) fresh_world)))) = 2"
    by (simp add: demo_upload_two) (simp add: demo_modules_def)
  have b: "\<not> upload_succeeded demo_modules demo_env (upload [resume, broken]) fresh_world"
    using demo_succeeded(2) by (simp add: upload_succeeded_def upload_failed_def)
  have a: "\<not> upload_succeeded demo_modules demo_env ask fresh_world"
    by (simp add: upload_succeeded_def ask_gates)
  have s1: "usage_counter (session (fst (main demo_modules demo_env (upload [resume, posting])
              fresh_world))) = Some 2"
    using usage_counter_grows [of demo_modules demo_env "upload [resume, posting]" fresh_world]
    by (simp add: demo_succeeded(1) v l)
  have s2: "usage_counter (session (fst (main demo_modules demo_env (upload [resume, broken])
              fresh_world))) = Some 0"
    using usage_counter_grows [of demo_modules demo_env "upload [resume, broken]" fresh_world]
    by (simp add: b v)
  have s3: "usage_counter (session (fst (main demo_modules demo_env ask fresh_world))) = Some 0"
    using usage_counter_grows [of demo_modules demo_env ask fresh_world]
    by (simp add: a v)
  have m: "usage_value fresh_world \<le> usage_value (runs demo_modules demo_env
     [upload [resume, posting], ask, upload [resume, broken], upload [resume]] fresh_world)"
    using usage_counter_grows [of demo_modules demo_env ask fresh_world
      "[upload [resume, posting], ask, upload [resume, broken], upload [resume]]"]
    by (rule conjunct1 [OF conjunct2])
  show ?thesis
    by (intro conjI s1 s2 s3 m demo_runs)
qed

subsection \<open>The uploader (C7)\<close>

text \<open>
  Claim C7 as stated fails. A file \<^verbatim>\<open>notes.md\<close> is refused by the upload widget, which was
  created with the four allowed types: the uploader's list is empty, so with the right
  password and the button pressed the run does not even call \<^verbatim>\<open>get_chunks\<close>, and no error
  of the chunker is reported. The file is rejected at the upload surface, earlier than
  the chunker.
\<close>

theorem unsupported_file_stops_at_uploader:
  "extension (name md_notes) = ''md'' \<and>
   uploaded_files (upload [md_notes]) = [] \<and>
   snd (main demo_modules demo_env (upload [md_notes]) fresh_world) =
     [StMarkdown ''## :rocket: Willkommen zu deinem Bewerbungs-Assistenten'',
      StInfo (''Hochgeladene Dokumente: '' @ [CHR 0x0A, CHR 0x0A] @
              '' Noch keine Dokumente hochgeladen!'')]"
  by (simp add: demo_files demo_upload_notes info_bar_empty) (simp add: md_notes_def extension_def)

text \<open>
  Claim C7, amended. The files handed to \<^verbatim>\<open>get_chunks\<close> are exactly the picked files whose
  extension is one of pdf, txt, docx and srt, in the order picked: a file with another
  extension is refused by the uploader and never reaches the chunker, a file with one of
  the four extensions is accepted, and when the upload runs all accepted files are
  passed to \<^verbatim>\<open>get_chunks\<close> in one call.
\<close>

theorem uploader_filters_types:
  "(GetChunks fs \<in> set (snd (main m e i w)) \<longrightarrow>
      fs = filter (\<lambda>f. extension (name f) \<in> {''pdf'', ''txt'', ''docx'', ''srt''})
             (picked_files i)) \<and>
   (f \<in> set (uploaded_files i) \<longleftrightarrow>
      f \<in> set (picked_files i) \<and> extension (name f) \<in> {''pdf'', ''txt'', ''docx'', ''srt''}) \<and>
   (upload_pressed i \<and> uploaded_files i \<noteq> [] \<and> password i = secrets_password e \<longrightarrow>
      GetChunks (uploaded_files i) \<in> set (snd (main m e i w)))"
  by (auto simp: main_chunks_iff upload_gate_def uploaded_files_def file_uploader_def)

text \<open>
  Of three picked files the two with allowed extensions reach the chunker, the third
  does not.
\<close>

theorem uploader_filters_types_witness:
  "GetChunks [resume, posting]
     \<in> set (snd (main demo_modules demo_env (upload [resume, md_notes, posting]) fresh_world)) \<and>
   GetChunks [resume, md_notes, posting]
     \<notin> set (snd (main demo_modules demo_env (upload [resume, md_notes, posting]) fresh_world)) \<and>
   md_notes \<notin> set (uploaded_files (upload [resume, md_notes, posting]))"
proof -
  have f: "filter (\<lambda>f. extension (name f) \<in> {''pdf'', ''txt'', ''docx'', ''srt''})
             (picked_files (upload [resume, md_notes, posting])) = [resume, posting]"
    using demo_files(5) by (simp add: uploaded_files_def file_uploader_def)
  have n: "[resume, md_notes, posting] \<noteq> [resume, posting]"
    by (simp add: md_notes_def posting_def)
  have x: "extension (name md_notes) \<notin> {''pdf'', ''txt'', ''docx'', ''srt''}"
    by (simp add: md_notes_def extension_def)
  have g: "upload_pressed (upload [resume, md_notes, posting]) \<and>
           uploaded_files (upload [resume, md_notes, posting]) \<noteq> [] \<and>
           password (upload [resume, md_notes, posting]) = secrets_password demo_env"
    by (simp add: demo_files(5)) (simp add: upload_def demo_env_def)
  have h1: "GetChunks [resume, posting]
     \<in> set (snd (main demo_modules demo_env (upload [resume, md_notes, posting]) fresh_world))"
    using g uploader_filters_types [of "[resume, posting]" demo_modules demo_env
        "upload [resume, md_notes, posting]" fresh_world md_notes]
    by (simp only: demo_files(5)) blast
  have h2: "GetChunks [resume, md_notes, posting]
     \<notin> set (snd (main demo_modules demo_env (upload [resume, md_notes, posting]) fresh_world))"
    using n uploader_filters_types [of "[resume, md_notes, posting]" demo_modules demo_env
        "upload [resume, md_notes, posting]" fresh_world md_notes]
    by (simp only: f) blast
  have h3: "md_notes \<notin> set (uploaded_files (upload [resume, md_notes, posting]))"
    using x uploader_filters_types [of "[resume, posting]" demo_modules demo_env
        "upload [resume, md_notes, posting]" fresh_world md_notes]
    by blast
  show ?thesis by (intro conjI h1 h2 h3)
qed

subsection \<open>Errors of a query (C8)\<close>



subsection \<open>The gate of the upload (C9)\<close>



subsection \<open>The question (C10)\<close>

text \<open>
  Claim C10. For every query submission the question sent to the chain is the
  instruction text, the personal-information text and the prompt text, joined by single
  spaces in that order: every call of \<^verbatim>\<open>get_response\<close> a run makes has this argument.
\<close>

theorem question_is_concatenation:
  "GetResponse q \<in> set (snd (main m e i w)) \<Longrightarrow>
     q = user_instructions i @ '' '' @ user_information i @ '' '' @ user_input i"
  using query_of_evs [of "GetResponse q" m e i w]
  by (simp add: main_query_call_iff)

text \<open>
  The run that asks a question sends the three default texts joined by spaces.
\<close>

theorem question_is_concatenation_witness:
  "GetResponse ''Du bist ein Bewerbungs-Assistent. Ich bin Max. Erstelle mir ein Anschreiben.''
     \<in> set (snd (main demo_modules demo_env ask fresh_world)) \<and>
   ''Du bist ein Bewerbungs-Assistent. Ich bin Max. Erstelle mir ein Anschreiben.'' =
     user_instructions ask @ '' '' @ user_information ask @ '' '' @ user_input ask"
proof -
  have h: "GetResponse ''Du bist ein Bewerbungs-Assistent. Ich bin Max. Erstelle mir ein Anschreiben.''
     \<in> set (snd (main demo_modules demo_env ask fresh_world))"
    by (simp add: demo_ask)
  show ?thesis
    using h question_is_concatenation [OF h] by simp
qed

end
